theory Spec2Isabelle
  imports Main "HOL-Library.Word" "HOL-Library.Signed_Division" "HOL-Library.Monad_Syntax"
begin

unbundle bit_operations_syntax

section \<open>The 'i' protocol of Taylor UUCP (proti.c) and the generic transfer layer (prot.c)\<close>

text \<open>
  C \<open>int\<close> and \<open>long\<close> values are modelled as \<open>int\<close>; where a value is stored in a
  narrower object the conversion is written out (\<open>to_char\<close>, \<open>to_int32\<close>).
  A \<open>char\<close> is a \<open>byte\<close>.  C's \<open>/\<close> and \<open>%\<close> truncate towards zero: they are
  \<open>sdiv\<close> and \<open>smod\<close>.  A function whose C execution has no defined result
  (division by zero, a read or write outside an object) returns \<open>None\<close>; so does a loop
  that never ends.
\<close>

type_synonym byte = "8 word"

definition to_char :: "int \<Rightarrow> byte" where
  "to_char i = word_of_int i"

definition to_int32 :: "int \<Rightarrow> int" where
  "to_int32 i = sint (word_of_int i :: 32 word)"

subsection \<open>Packet header macros\<close>

definition IHDR_LOCAL :: nat where "IHDR_LOCAL = 1"
definition IHDR_REMOTE :: nat where "IHDR_REMOTE = 2"
definition IHDR_CONTENTS1 :: nat where "IHDR_CONTENTS1 = 3"
definition IHDR_CONTENTS2 :: nat where "IHDR_CONTENTS2 = 4"
definition IHDR_CHECK :: nat where "IHDR_CHECK = 5"

definition IHDRWIN_SET :: "int \<Rightarrow> int \<Rightarrow> int" where
  "IHDRWIN_SET iseq ichan = (push_bit 3 iseq) OR ichan"

definition IHDRWIN_GETSEQ :: "byte \<Rightarrow> int" where
  "IHDRWIN_GETSEQ ival = (drop_bit 3 (uint ival)) AND 0x1f"

definition IHDRWIN_GETCHAN :: "byte \<Rightarrow> int" where
  "IHDRWIN_GETCHAN ival = (uint ival) AND 0x07"

definition IHDRCON_SET1 :: "int \<Rightarrow> bool \<Rightarrow> int \<Rightarrow> int" where
  "IHDRCON_SET1 ttype fcaller cbytes =
     ((push_bit 5 ttype) OR (if fcaller then push_bit 4 1 else 0)) OR ((drop_bit 8 cbytes) AND 0x0f)"

definition IHDRCON_SET2 :: "int \<Rightarrow> bool \<Rightarrow> int \<Rightarrow> int" where
  "IHDRCON_SET2 ttype fcaller cbytes = cbytes AND 0xff"

definition THDRCON_GETTYPE :: "byte \<Rightarrow> byte \<Rightarrow> int" where
  "THDRCON_GETTYPE i1 i2 = (drop_bit 5 (uint i1)) AND 0x07"

definition FHDRCON_GETCALLER :: "byte \<Rightarrow> byte \<Rightarrow> bool" where
  "FHDRCON_GETCALLER i1 i2 = ((uint i1 AND push_bit 4 1) \<noteq> 0)"

definition CHDRCON_GETBYTES :: "byte \<Rightarrow> byte \<Rightarrow> int" where
  "CHDRCON_GETBYTES i1 i2 = (push_bit 8 (uint i1 AND 0x0f)) OR (uint i2 AND 0xff)"

definition IHDRCHECK_VAL :: "byte list \<Rightarrow> int" where
  "IHDRCHECK_VAL zhdr =
     (uint (zhdr ! IHDR_LOCAL) XOR uint (zhdr ! IHDR_REMOTE)
        XOR uint (zhdr ! IHDR_CONTENTS1) XOR uint (zhdr ! IHDR_CONTENTS2)) AND 0xff"

definition CHDRLEN :: int where "CHDRLEN = 6"

text \<open>\<open>CHDRSKIPLEN\<close> is \<open>CHDRLEN + (sizeof (long) - CHDRLEN % sizeof (long))\<close>: 8 both
  for a 4 byte and for an 8 byte \<open>long\<close>.\<close>

definition CHDRSKIPLEN :: int where "CHDRSKIPLEN = 8"
definition CHDROFFSET :: int where "CHDROFFSET = CHDRSKIPLEN - CHDRLEN"
definition CCKSUMLEN :: int where "CCKSUMLEN = 4"

definition ICKSUM_GET :: "byte list \<Rightarrow> int" where
  "ICKSUM_GET z =
     (push_bit 8 ((push_bit 8 ((push_bit 8 (uint (z ! 0) AND 0xff)) OR (uint (z ! 1) AND 0xff)))
        OR (uint (z ! 2) AND 0xff))) OR (uint (z ! 3) AND 0xff)"

definition UCKSUM_SET :: "int \<Rightarrow> byte list" where
  "UCKSUM_SET i =
     [to_char ((drop_bit 24 i) AND 0xff), to_char ((drop_bit 16 i) AND 0xff),
      to_char ((drop_bit 8 i) AND 0xff), to_char (i AND 0xff)]"

definition IINTRO :: byte where "IINTRO = 7"

definition DATA :: int where "DATA = 0"
definition SYNC :: int where "SYNC = 1"
definition ACK :: int where "ACK = 2"
definition NAK :: int where "NAK = 3"
definition SPOS :: int where "SPOS = 4"
definition CLOSE :: int where "CLOSE = 5"

definition IMAXPACKSIZE :: int where "IMAXPACKSIZE = push_bit 12 1"
definition IMAXSEQ :: int where "IMAXSEQ = 32"

definition INEXTSEQ :: "int \<Rightarrow> int" where
  "INEXTSEQ i = (i + 1) AND (IMAXSEQ - 1)"

definition CSEQDIFF :: "int \<Rightarrow> int \<Rightarrow> int" where
  "CSEQDIFF i1 i2 = (i1 + IMAXSEQ - i2) AND (IMAXSEQ - 1)"

definition IMAXICHAN :: int where "IMAXICHAN = 8"

subsection \<open>The state\<close>

text \<open>
  One event of the byte port: an error, or a transfer that takes up to \<open>n\<close> of the bytes
  offered for output and delivers the given input bytes (none: the read timed out).
\<close>

datatype port_ev = PortErr | PortIO nat "byte list"

text \<open>
  The statics of proti.c, the receive ring of prot.c (\<open>abPrecbuf\<close>, \<open>iPrecstart\<close>,
  \<open>iPrecend\<close>), and the environment: \<open>mem\<close> holds the allocated send buffers (the
  pointer \<open>p > 0\<close> is to buffer \<open>p - 1\<close> of it, 0 is \<open>NULL\<close>), \<open>sent\<close> the byte strings handed to the port so far, \<open>script\<close>
  the port events still to come, \<open>ulog\<close> the messages logged, \<open>sess\<close> the state of the
  session layer above.
\<close>

record 's world =
  iIrequest_packsize :: int
  iIrequest_winsize :: int
  iIremote_packsize :: int
  iIforced_remote_packsize :: int
  iIremote_winsize :: int
  iIforced_remote_winsize :: int
  cIsync_timeout :: int
  cIsync_retries :: int
  cItimeout :: int
  cIretries :: int
  cIerrors :: int
  cIerror_decay :: int
  iIsendseq :: int
  iIrecseq :: int
  iIlocal_ack :: int
  iIremote_ack :: int
  iIsendpos :: int
  iIrecpos :: int
  fIclosing :: bool
  azIsendbuffers :: "nat list"
  azIrecbuffers :: "byte list option list"
  afInaked :: "bool list"
  cIsyncs :: int
  cIsent_packets :: int
  cIreceived_packets :: int
  cIresent_packets :: int
  cIbad_hdr :: int
  cIbad_order :: int
  cIbad_cksum :: int
  cIremote_rejects :: int
  abPrecbuf :: "byte list"
  iPrecstart :: int
  iPrecend :: int
  mem :: "byte list list"
  sent :: "byte list list"
  script :: "port_ev list"
  ulog :: "string list"
  sess :: 's

subsection \<open>The error budget\<close>

definition ficheck_errors :: "'s world \<Rightarrow> (bool \<times> 's world) option" where
  "ficheck_errors w =
     (if cIerrors w < 0 then Some (True, w)
      else if cIerror_decay w = 0 then None
      else if (cIbad_order w + cIbad_hdr w + cIbad_cksum w + cIremote_rejects w)
                - (cIreceived_packets w sdiv cIerror_decay w) > cIerrors w
      then Some (False, w\<lparr>ulog := ulog w @ [''Too many 'i' protocol errors'']\<rparr>)
      else Some (True, w))"

text \<open>A state in which only the counters and the two budget parameters matter.\<close>

definition budget_world :: "int \<Rightarrow> int \<Rightarrow> int \<Rightarrow> int \<Rightarrow> unit world" where
  "budget_world errs decay bad received =
     \<lparr>iIrequest_packsize = 1024, iIrequest_winsize = 16, iIremote_packsize = 1024,
      iIforced_remote_packsize = 0, iIremote_winsize = 16, iIforced_remote_winsize = 0,
      cIsync_timeout = 10, cIsync_retries = 6, cItimeout = 10, cIretries = 6,
      cIerrors = errs, cIerror_decay = decay,
      iIsendseq = 1, iIrecseq = 0, iIlocal_ack = 0, iIremote_ack = 0,
      iIsendpos = 0, iIrecpos = 0, fIclosing = False,
      azIsendbuffers = [], azIrecbuffers = [], afInaked = [],
      cIsyncs = 0, cIsent_packets = 0, cIreceived_packets = received, cIresent_packets = 0,
      cIbad_hdr = bad, cIbad_order = 0, cIbad_cksum = 0, cIremote_rejects = 0,
      abPrecbuf = [], iPrecstart = 0, iPrecend = 0,
      mem = [], sent = [], script = [], ulog = [], sess = ()\<rparr>"

subsection \<open>What proti.c takes from elsewhere\<close>

text \<open>
  The constants \<open>CRECBUFLEN\<close> and \<open>ICRCINIT\<close>, the checksum \<open>icrc\<close>, the upcall
  \<open>fgot_data\<close> into the session layer, the variable \<open>fLog_sighup\<close>, the field
  \<open>fcaller\<close> of the daemon structure, whether a plain \<open>char\<close> is signed, whether
  \<open>malloc\<close> of a given size succeeds, and the largest value of a \<open>size_t\<close>.

  The upcall gets the state, the two data spans, the channels, the file position and the
  current exit flag, and returns its result, the exit flag and the new state.  It is given
  the whole state, not only that of the session layer: the session layer may send a
  command through the protocol while it is called (the \<open>fgot_data\<close> of prot.c does, through
  \<open>fprecfile_confirm\<close>), which changes the statics of proti.c.  It has no result when it
  does not return.
\<close>

record 's extern =
  CRECBUFLEN :: int
  ICRCINIT :: int
  icrc :: "byte list \<Rightarrow> int \<Rightarrow> int"
  fgot_data :: "'s world \<Rightarrow> byte list \<Rightarrow> byte list \<Rightarrow> int \<Rightarrow> int \<Rightarrow> int \<Rightarrow> bool
                  \<Rightarrow> (bool \<times> bool \<times> 's world) option"
  fLog_sighup :: bool
  fcaller :: bool
  char_signed :: bool
  malloc_ok :: "int \<Rightarrow> bool"
  SIZE_MAX :: int

definition char_int :: "'s extern \<Rightarrow> byte \<Rightarrow> int" where
  "char_int x b = (if char_signed x then sint b else uint b)"

subsection \<open>Arrays and buffers\<close>

text \<open>An access outside the object has no result.\<close>

definition aget :: "'a list \<Rightarrow> int \<Rightarrow> 'a option" where
  "aget xs i = (if 0 \<le> i \<and> nat i < length xs then Some (xs ! nat i) else None)"

definition aset :: "'a list \<Rightarrow> int \<Rightarrow> 'a \<Rightarrow> 'a list option" where
  "aset xs i v = (if 0 \<le> i \<and> nat i < length xs then Some (xs[nat i := v]) else None)"

definition peek :: "byte list \<Rightarrow> int \<Rightarrow> int \<Rightarrow> byte list option" where
  "peek buf pos n =
     (if 0 \<le> pos \<and> 0 \<le> n \<and> nat pos + nat n \<le> length buf
      then Some (take (nat n) (drop (nat pos) buf)) else None)"

definition poke :: "byte list \<Rightarrow> int \<Rightarrow> byte list \<Rightarrow> byte list option" where
  "poke buf pos bs =
     (if 0 \<le> pos \<and> nat pos + length bs \<le> length buf
      then Some (take (nat pos) buf @ bs @ drop (nat pos + length bs) buf) else None)"

definition buffer_at :: "'s world \<Rightarrow> nat \<Rightarrow> byte list option" where
  "buffer_at w p = aget (mem w) (int p - 1)"

definition buffer_upd :: "nat \<Rightarrow> byte list \<Rightarrow> 's world \<Rightarrow> 's world" where
  "buffer_upd p buf w = w\<lparr>mem := (mem w)[p - 1 := buf]\<rparr>"

definition memchr :: "byte list \<Rightarrow> byte \<Rightarrow> nat option" where
  "memchr bs c = (if c \<in> set bs then Some (length (takeWhile (\<lambda>b. b \<noteq> c) bs)) else None)"

subsection \<open>Port input and output (prot.c)\<close>

text \<open>The free region of the receive ring that the next read may fill: its start and
  its length.\<close>

definition recspace :: "'s extern \<Rightarrow> 's world \<Rightarrow> int \<times> int" where
  "recspace x w =
     (if iPrecend w < iPrecstart w then (iPrecend w, iPrecstart w - iPrecend w - 1)
      else if iPrecend w < CRECBUFLEN x then (iPrecend w, CRECBUFLEN x - iPrecend w)
      else (0, iPrecstart w - 1))"

text \<open>
  The loop of \<open>fsend_data\<close>: each round is one \<open>fport_io\<close>, which sends part of what is
  left and reads into the free region.  A port whose script is used up fails.  The calls in
  proti.c pass a flag \<open>fdoread\<close> that the \<open>fsend_data\<close> of prot.c does not have; without
  it nothing is read.
\<close>

function fsend_data_loop :: "'s extern \<Rightarrow> bool \<Rightarrow> int \<Rightarrow> 's world \<Rightarrow> (bool \<times> 's world) option" where
  "fsend_data_loop x fdoread csend w =
     (if csend > 0 then
        (case script w of
           [] \<Rightarrow> Some (False, w)
         | PortErr # es \<Rightarrow> Some (False, w\<lparr>script := es\<rparr>)
         | PortIO n bs # es \<Rightarrow>
             (case recspace x w of (zrec, crec) \<Rightarrow>
                (let csent = min (int n) csend;
                     got = (if fdoread then take (nat crec) bs else [])
                 in case poke (abPrecbuf w) zrec got of
                      None \<Rightarrow> None
                    | Some buf \<Rightarrow>
                        fsend_data_loop x fdoread (csend - csent)
                          (w\<lparr>script := es, abPrecbuf := buf,
                             iPrecend := (iPrecend w + int (length got)) smod CRECBUFLEN x\<rparr>))))
      else Some (True, w))"
  by pat_completeness auto
termination
  by (relation "measure (\<lambda>(x, fdoread, csend, w). length (script w))") auto

declare fsend_data_loop.simps [simp del]

text \<open>\<open>sent\<close> records every byte string handed to \<open>fsend_data\<close>, in order.\<close>

definition fsend_data :: "'s extern \<Rightarrow> byte list \<Rightarrow> bool \<Rightarrow> 's world \<Rightarrow> (bool \<times> 's world) option" where
  "fsend_data x z fdoread w = fsend_data_loop x fdoread (int (length z)) (w\<lparr>sent := sent w @ [z]\<rparr>)"

text \<open>\<open>freceive_data\<close>: one \<open>fport_read\<close> into the free region; it returns the number of
  bytes received, 0 after a timeout.\<close>

definition freceive_data :: "'s extern \<Rightarrow> int \<Rightarrow> 's world \<Rightarrow> (bool \<times> int \<times> 's world) option" where
  "freceive_data x cneed w =
     (case recspace x w of (zrec, cspace) \<Rightarrow>
        (case script w of
           [] \<Rightarrow> Some (False, 0, w)
         | PortErr # es \<Rightarrow> Some (False, 0, w\<lparr>script := es\<rparr>)
         | PortIO n bs # es \<Rightarrow>
             (let got = take (nat cspace) bs
              in case poke (abPrecbuf w) zrec got of
                   None \<Rightarrow> None
                 | Some buf \<Rightarrow>
                     Some (True, int (length got),
                           w\<lparr>script := es, abPrecbuf := buf,
                             iPrecend := (iPrecend w + int (length got)) smod CRECBUFLEN x\<rparr>))))"

subsection \<open>Sending a NAK, resending a packet\<close>

definition set_check :: "byte list \<Rightarrow> byte list" where
  "set_check zhdr = zhdr[IHDR_CHECK := to_char (IHDRCHECK_VAL zhdr)]"

definition finak_packet :: "'s extern \<Rightarrow> int \<Rightarrow> 's world \<Rightarrow> byte list" where
  "finak_packet x iseq w =
     set_check [IINTRO, to_char (IHDRWIN_SET iseq 0), to_char (IHDRWIN_SET (iIrecseq w) 0),
                to_char (IHDRCON_SET1 NAK (fcaller x) 0),
                to_char (IHDRCON_SET2 NAK (fcaller x) 0), 0]"

definition finak :: "'s extern \<Rightarrow> int \<Rightarrow> 's world \<Rightarrow> (bool \<times> 's world) option" where
  "finak x iseq w =
     do { let abnak = finak_packet x iseq w;
          naked \<leftarrow> aset (afInaked w) iseq True;
          fsend_data x abnak True (w\<lparr>iIlocal_ack := iIrecseq w, afInaked := naked\<rparr>) }"

text \<open>
  The resend of the packet in send buffer \<open>iseq\<close>, written out twice in proti.c (after a
  read timeout in \<open>fiwait_for_packet\<close>, and for a NAK in \<open>fiprocess_packet\<close>): the
  acknowledgement in the stored header is brought up to date, then the packet is sent again.
\<close>

definition resend_packet :: "'s extern \<Rightarrow> int \<Rightarrow> 's world \<Rightarrow> (bool \<times> 's world) option" where
  "resend_packet x iseq w =
     do { p \<leftarrow> aget (azIsendbuffers w) iseq;
          buf \<leftarrow> buffer_at w p;
          zhdr \<leftarrow> peek buf CHDROFFSET CHDRLEN;
          let stale = (IHDRWIN_GETSEQ (zhdr ! IHDR_REMOTE) \<noteq> iIrecseq w);
          let zhdr' = (if stale
                       then set_check (zhdr[IHDR_REMOTE :=
                              to_char (IHDRWIN_SET (iIrecseq w) (IHDRWIN_GETCHAN (zhdr ! IHDR_REMOTE)))])
                       else zhdr);
          buf' \<leftarrow> poke buf CHDROFFSET zhdr';
          let clen = CHDRCON_GETBYTES (zhdr' ! IHDR_CONTENTS1) (zhdr' ! IHDR_CONTENTS2);
          pkt \<leftarrow> peek buf' CHDROFFSET (CHDRLEN + clen + (if clen > 0 then CCKSUMLEN else 0));
          fsend_data x pkt True
            ((buffer_upd p buf' w)
               \<lparr>iIlocal_ack := (if stale then iIrecseq w else iIlocal_ack w),
                cIresent_packets := cIresent_packets w + 1\<rparr>) }"

subsection \<open>Processing one packet\<close>

text \<open>The result is the return value, the exit flag \<open>*pfexit\<close> and the new state.  The two
  spans are the bytes at \<open>zfirst\<close> and \<open>zsecond\<close>; \<open>cfirst\<close> and \<open>csecond\<close> are their
  lengths.\<close>

definition fiprocess_packet ::
    "'s extern \<Rightarrow> byte list \<Rightarrow> byte list \<Rightarrow> byte list \<Rightarrow> bool \<Rightarrow> 's world \<Rightarrow> (bool \<times> bool \<times> 's world) option" where
  "fiprocess_packet x zhdr zfirst zsecond fexit w =
     (let ttype = THDRCON_GETTYPE (zhdr ! IHDR_CONTENTS1) (zhdr ! IHDR_CONTENTS2);
          cfirst = int (length zfirst);
          csecond = int (length zsecond)
      in
      if ttype = DATA then
        do { (fret, fexit', w1) \<leftarrow>
               fgot_data x w zfirst zsecond
                 (IHDRWIN_GETCHAN (zhdr ! IHDR_REMOTE)) (IHDRWIN_GETCHAN (zhdr ! IHDR_LOCAL))
                 (iIrecpos w) fexit;
             Some (fret, fexit', w1\<lparr>iIrecpos := to_int32 (iIrecpos w1 + (cfirst + csecond))\<rparr>) }
      else if ttype = SYNC then
        (if cfirst + csecond < 3 then Some (False, fexit, w\<lparr>ulog := ulog w @ [''Bad SYNC packet'']\<rparr>)
         else
           do { b0 \<leftarrow> aget zfirst 0;
                b1 \<leftarrow> (if cfirst > 1 then map_option (\<lambda>b. uint b AND 0xff) (aget zfirst 1)
                       else map_option (char_int x) (aget zsecond 0));
                b2 \<leftarrow> (if cfirst > 2 then aget zfirst 2 else aget zsecond (2 - cfirst));
                let ipack = (push_bit 8 (uint b0 AND 0xff)) OR b1;
                let iwin = char_int x b2;
                Some (True, True,
                      w\<lparr>iIremote_packsize :=
                          (if iIforced_remote_packsize w = 0 then ipack else iIremote_packsize w),
                        iIremote_winsize :=
                          (if iIforced_remote_winsize w = 0 then iwin else iIremote_winsize w),
                        cIsyncs := cIsyncs w + 1\<rparr>) })
      else if ttype = ACK then Some (True, fexit, w)
      else if ttype = NAK then
        do { (ok, w2) \<leftarrow> ficheck_errors (w\<lparr>cIremote_rejects := cIremote_rejects w + 1\<rparr>);
             if \<not> ok then Some (False, fexit, w2)
             else
               (let iseq = IHDRWIN_GETSEQ (zhdr ! IHDR_LOCAL)
                in if iIrequest_winsize w2 > 0
                      \<and> (iseq = iIsendseq w2
                          \<or> CSEQDIFF iseq (iIremote_ack w2) > iIrequest_winsize w2
                          \<or> CSEQDIFF (iIsendseq w2) iseq > iIrequest_winsize w2)
                   then Some (True, fexit, w2)
                   else do { (r, w3) \<leftarrow> resend_packet x iseq w2; Some (r, fexit, w3) }) }
      else if ttype = SPOS then
        do { zpos \<leftarrow> (if cfirst \<ge> CCKSUMLEN then peek zfirst 0 CCKSUMLEN
                      else do { rest \<leftarrow> peek zsecond 0 (CCKSUMLEN - cfirst); Some (zfirst @ rest) });
             Some (True, fexit, w\<lparr>iIrecpos := to_int32 (ICKSUM_GET zpos)\<rparr>) }
      else if ttype = CLOSE then
        Some (\<not> fLog_sighup x \<or> fIclosing w, True,
              (if fLog_sighup x \<and> \<not> fIclosing w
               then w\<lparr>ulog := ulog w @ [''Received unexpected CLOSE packet'']\<rparr> else w))
      else Some (True, fexit, w))"

subsection \<open>Processing the receive ring: the stages of \<open>fiprocess_data\<close>\<close>

text \<open>Looking for the intro character.  The result says whether \<open>iPrecstart\<close> now is at
  one (if not, the loop continues).\<close>

definition fiprocess_intro :: "'s extern \<Rightarrow> 's world \<Rightarrow> (bool \<times> 's world) option" where
  "fiprocess_intro x w =
     do { c \<leftarrow> aget (abPrecbuf w) (iPrecstart w);
          if c \<noteq> IINTRO then
            (let cintro0 = iPrecend w - iPrecstart w;
                 cintro = (if cintro0 < 0 then CRECBUFLEN x - iPrecstart w else cintro0)
             in do { span \<leftarrow> peek (abPrecbuf w) (iPrecstart w) cintro;
                     case memchr span IINTRO of
                       None \<Rightarrow> Some (False, w\<lparr>iPrecstart := (iPrecstart w + cintro) smod CRECBUFLEN x\<rparr>)
                     | Some k \<Rightarrow> Some (True, w\<lparr>iPrecstart := iPrecstart w + int k\<rparr>) })
          else Some (True, w) }"

text \<open>The loop that copies the header out of the ring; the length of the result is the
  final \<open>i\<close>.\<close>

function fiprocess_gethdr :: "'s extern \<Rightarrow> 's world \<Rightarrow> int \<Rightarrow> int \<Rightarrow> byte list option" where
  "fiprocess_gethdr x w i iget =
     (if i < CHDRLEN \<and> iget \<noteq> iPrecend w
      then do { b \<leftarrow> aget (abPrecbuf w) iget;
                bs \<leftarrow> fiprocess_gethdr x w (i + 1) ((iget + 1) smod CRECBUFLEN x);
                Some (b # bs) }
      else Some [])"
  by pat_completeness auto
termination
  by (relation "measure (\<lambda>(x, w, i, iget). nat (CHDRLEN - i))") auto

declare fiprocess_gethdr.simps [simp del]

text \<open>The loop that copies the checksum out of the ring.\<close>

function fiprocess_getcksum :: "'s extern \<Rightarrow> 's world \<Rightarrow> int \<Rightarrow> int \<Rightarrow> byte list option" where
  "fiprocess_getcksum x w i iget =
     (if i < CCKSUMLEN
      then do { b \<leftarrow> aget (abPrecbuf w) iget;
                bs \<leftarrow> fiprocess_getcksum x w (i + 1) ((iget + 1) smod CRECBUFLEN x);
                Some (b # bs) }
      else Some [])"
  by pat_completeness auto
termination
  by (relation "measure (\<lambda>(x, w, i, iget). nat (CCKSUMLEN - i))") auto

declare fiprocess_getcksum.simps [simp del]

text \<open>The one or two spans of the ring that hold the \<open>csize\<close> data bytes.\<close>

definition fiprocess_spans :: "'s extern \<Rightarrow> 's world \<Rightarrow> int \<Rightarrow> (byte list \<times> byte list) option" where
  "fiprocess_spans x w csize =
     (if iPrecend w > iPrecstart w
      then do { zf \<leftarrow> peek (abPrecbuf w) (iPrecstart w + CHDRLEN) csize; Some (zf, []) }
      else
        (let cfirst = CRECBUFLEN x - (iPrecstart w + CHDRLEN)
         in if cfirst < 0
            then do { zf \<leftarrow> peek (abPrecbuf w) (- cfirst) csize; Some (zf, []) }
            else if cfirst \<ge> csize
            then do { zf \<leftarrow> peek (abPrecbuf w) (iPrecstart w + CHDRLEN) csize; Some (zf, []) }
            else do { zf \<leftarrow> peek (abPrecbuf w) (iPrecstart w + CHDRLEN) cfirst;
                      zs \<leftarrow> peek (abPrecbuf w) 0 (csize - cfirst);
                      Some (zf, zs) }))"

text \<open>``Get the ack from the packet, if appropriate.''\<close>

definition fiprocess_ack :: "int \<Rightarrow> int \<Rightarrow> 's world \<Rightarrow> 's world" where
  "fiprocess_ack iseq iack w =
     (if iIrequest_winsize w > 0
         \<and> iseq \<noteq> iIsendseq w
         \<and> CSEQDIFF iseq (iIremote_ack w) \<le> iIrequest_winsize w
         \<and> CSEQDIFF (iIsendseq w) iseq \<le> iIrequest_winsize w
      then w\<lparr>iIremote_ack := iack\<rparr> else w)"

text \<open>The loop that sends a NAK for each packet from \<open>i\<close> up to \<open>iseq\<close> that has not been
  NAKed yet.\<close>

partial_function (option) fiprocess_naks ::
    "'s extern \<Rightarrow> int \<Rightarrow> int \<Rightarrow> 's world \<Rightarrow> (bool \<times> 's world) option" where
  "fiprocess_naks x i iseq w =
     (if i \<noteq> iseq then
        do { naked \<leftarrow> aget (afInaked w) i;
             if \<not> naked then
               do { (ok, w1) \<leftarrow> finak x i w;
                    if \<not> ok then Some (False, w1)
                    else fiprocess_naks x (INEXTSEQ i) iseq w1 }
             else fiprocess_naks x (INEXTSEQ i) iseq w }
      else Some (True, w))"

text \<open>The loop that processes the saved packets that follow the one just processed.\<close>

partial_function (option) fiprocess_stored ::
    "'s extern \<Rightarrow> int \<Rightarrow> bool \<Rightarrow> 's world \<Rightarrow> (bool \<times> bool \<times> 's world) option" where
  "fiprocess_stored x inext fexit w =
     do { b \<leftarrow> aget (azIrecbuffers w) inext;
          case b of
            None \<Rightarrow> Some (True, fexit, w)
          | Some z \<Rightarrow>
              do { let c = CHDRCON_GETBYTES (z ! IHDR_CONTENTS1) (z ! IHDR_CONTENTS2);
                   zd \<leftarrow> peek z CHDRLEN c;
                   (ok, fexit1, w1) \<leftarrow> fiprocess_packet x z zd [] fexit (w\<lparr>iIrecseq := inext\<rparr>);
                   if \<not> ok then Some (False, fexit1, w1)
                   else do { bufs \<leftarrow> aset (azIrecbuffers w1) inext None;
                             fiprocess_stored x (INEXTSEQ inext) fexit1 (w1\<lparr>azIrecbuffers := bufs\<rparr>) } } }"

text \<open>The loop \<open>for (i = iIlocal_ack; i <= iIrecseq; i++) afInaked[i] = FALSE\<close>.\<close>

function fiprocess_unnak :: "int \<Rightarrow> int \<Rightarrow> bool list \<Rightarrow> bool list option" where
  "fiprocess_unnak i irecseq naked =
     (if i \<le> irecseq
      then do { naked' \<leftarrow> aset naked i False; fiprocess_unnak (i + 1) irecseq naked' }
      else Some naked)"
  by pat_completeness auto
termination
  by (relation "measure (\<lambda>(i, irecseq, naked). nat (irecseq + 1 - i))") auto

declare fiprocess_unnak.simps [simp del]

text \<open>The ACK sent once half a window has been received since the last one.\<close>

definition fiprocess_sendack :: "'s extern \<Rightarrow> 's world \<Rightarrow> (bool \<times> 's world) option" where
  "fiprocess_sendack x w =
     (if iIremote_winsize w > 0
         \<and> CSEQDIFF (iIrecseq w) (iIlocal_ack w) \<ge> iIremote_winsize w sdiv 2
      then
        do { naked \<leftarrow> fiprocess_unnak (iIlocal_ack w) (iIrecseq w) (afInaked w);
             let aback = set_check [IINTRO, to_char (IHDRWIN_SET 0 0),
                           to_char (IHDRWIN_SET (iIrecseq w) 0),
                           to_char (IHDRCON_SET1 ACK (fcaller x) 0),
                           to_char (IHDRCON_SET2 ACK (fcaller x) 0), 0];
             fsend_data x aback True (w\<lparr>afInaked := naked, iIlocal_ack := iIrecseq w\<rparr>) }
      else Some (True, w))"

text \<open>
  One round of the loop of \<open>fiprocess_data\<close> either continues the loop, with the state and
  the flags \<open>*pfexit\<close> and \<open>*pffound\<close>, or returns, with the return value, the state, the
  two flags and \<open>*pcneed\<close>.
\<close>

datatype 's iter =
  Continue "'s world \<times> bool \<times> bool"
| Return "bool \<times> 's world \<times> bool \<times> bool \<times> int"

text \<open>From ``Here we know that this is a valid packet'' to the end of the loop body.\<close>

definition fiprocess_valid ::
    "'s extern \<Rightarrow> byte list \<Rightarrow> int \<Rightarrow> int \<Rightarrow> byte list \<Rightarrow> byte list \<Rightarrow> bool \<Rightarrow> bool \<Rightarrow> 's world
       \<Rightarrow> 's iter option" where
  "fiprocess_valid x ab iseq csize zfirst zsecond fexit ffound w =
     (let w1 = (if csize = 0
                then w\<lparr>iPrecstart := (iPrecstart w + CHDRLEN) smod CRECBUFLEN x\<rparr>
                else w\<lparr>iPrecstart := (iPrecstart w + CHDRLEN + csize + CCKSUMLEN) smod CRECBUFLEN x,
                       cIreceived_packets := cIreceived_packets w + 1\<rparr>);
          iack = IHDRWIN_GETSEQ (ab ! IHDR_REMOTE);
          w2 = fiprocess_ack iseq iack w1
      in
      if iseq \<noteq> - 1 \<and> iseq \<noteq> INEXTSEQ (iIrecseq w2) then
        (if iIrequest_winsize w2 > 0 \<and> CSEQDIFF iseq (iIrecseq w2) > iIrequest_winsize w2
         then Some (Continue (w2, fexit, ffound))
         else
           do { old \<leftarrow> aget (azIrecbuffers w2) iseq;
                if old \<noteq> None then Some (Continue (w2, fexit, ffound))
                else
                  do { bufs \<leftarrow> aset (azIrecbuffers w2) iseq (Some (ab @ zfirst @ zsecond));
                       (ok, w3) \<leftarrow> fiprocess_naks x (INEXTSEQ (iIrecseq w2)) iseq
                                     (w2\<lparr>azIrecbuffers := bufs\<rparr>);
                       if \<not> ok then Some (Return (False, w3, fexit, ffound, 0))
                       else Some (Continue (w3, fexit, ffound)) } })
      else
        do { let w3 = (if iseq \<noteq> - 1 then w2\<lparr>iIrecseq := iseq\<rparr> else w2);
             (ok, fexit1, w4) \<leftarrow> fiprocess_packet x ab zfirst zsecond fexit w3;
             if \<not> ok then Some (Return (False, w4, fexit1, True, 0))
             else
               do { (ok2, fexit2, w5) \<leftarrow>
                      (if iseq \<noteq> - 1 then fiprocess_stored x (INEXTSEQ (iIrecseq w4)) fexit1 w4
                       else Some (True, fexit1, w4));
                    if \<not> ok2 then Some (Return (False, w5, fexit2, True, 0))
                    else
                      do { (ok3, w6) \<leftarrow> fiprocess_sendack x w5;
                           if \<not> ok3 then Some (Return (False, w6, fexit2, True, 0))
                           else Some (Continue (w6, fexit2, True)) } } })"

text \<open>From the packet type to the checksum test, for a header that passed its check.\<close>

definition fiprocess_body ::
    "'s extern \<Rightarrow> byte list \<Rightarrow> bool \<Rightarrow> bool \<Rightarrow> 's world \<Rightarrow> 's iter option" where
  "fiprocess_body x ab fexit ffound w =
     (let ttype = THDRCON_GETTYPE (ab ! IHDR_CONTENTS1) (ab ! IHDR_CONTENTS2);
          iseq = (if ttype = DATA \<or> ttype = SPOS \<or> ttype = CLOSE
                  then IHDRWIN_GETSEQ (ab ! IHDR_LOCAL) else - 1);
          csize = CHDRCON_GETBYTES (ab ! IHDR_CONTENTS1) (ab ! IHDR_CONTENTS2)
      in
      if iseq \<noteq> - 1 \<and> iIrequest_winsize w > 0
         \<and> CSEQDIFF iseq (iIlocal_ack w) \<ge> iIrequest_winsize w
      then
        do { (ok, w1) \<leftarrow> ficheck_errors (w\<lparr>cIbad_order := cIbad_order w + 1\<rparr>);
             if \<not> ok then Some (Return (False, w1, fexit, ffound, 0))
             else Some (Continue (w1\<lparr>iPrecstart := (iPrecstart w1 + 1) smod CRECBUFLEN x\<rparr>,
                                  fexit, ffound)) }
      else if csize > 0 then
        (let cinbuf0 = iPrecend w - iPrecstart w;
             cinbuf = (if cinbuf0 < 0 then cinbuf0 + CRECBUFLEN x else cinbuf0)
         in if cinbuf < CHDRLEN + csize + CCKSUMLEN
            then Some (Return (True, w, fexit, ffound, CHDRLEN + csize + CCKSUMLEN - cinbuf))
            else
              do { (zfirst, zsecond) \<leftarrow> fiprocess_spans x w csize;
                   abcksum \<leftarrow> fiprocess_getcksum x w 0
                                ((iPrecstart w + CHDRLEN + csize) smod CRECBUFLEN x);
                   let ickdata0 = icrc x zfirst (ICRCINIT x);
                   let ickdata = (if int (length zsecond) > 0 then icrc x zsecond ickdata0
                                  else ickdata0);
                   if ICKSUM_GET abcksum \<noteq> ickdata then
                     do { (ok, w1) \<leftarrow> ficheck_errors (w\<lparr>cIbad_cksum := cIbad_cksum w + 1\<rparr>);
                          if \<not> ok then Some (Return (False, w1, fexit, ffound, 0))
                          else
                            do { (ok2, w2) \<leftarrow> (if iseq \<noteq> - 1 then finak x iseq w1
                                                else Some (True, w1));
                                 if \<not> ok2 then Some (Return (False, w2, fexit, ffound, 0))
                                 else Some (Continue
                                        (w2\<lparr>iPrecstart := (iPrecstart w2 + 1) smod CRECBUFLEN x\<rparr>,
                                         fexit, ffound)) } }
                   else fiprocess_valid x ab iseq csize zfirst zsecond fexit ffound w })
      else fiprocess_valid x ab iseq csize [] [] fexit ffound w)"

text \<open>One round of the loop.\<close>

definition fiprocess_iter :: "'s extern \<Rightarrow> bool \<Rightarrow> bool \<Rightarrow> 's world \<Rightarrow> 's iter option" where
  "fiprocess_iter x fexit ffound w =
     do { (found, w1) \<leftarrow> fiprocess_intro x w;
          if \<not> found then Some (Continue (w1, fexit, ffound))
          else
            do { ab \<leftarrow> fiprocess_gethdr x w1 0 (iPrecstart w1);
                 if int (length ab) < CHDRLEN
                 then Some (Return (True, w1, fexit, ffound, CHDRLEN - int (length ab)))
                 else if (uint (ab ! IHDR_CHECK) AND 0xff) \<noteq> IHDRCHECK_VAL ab
                         \<or> (if FHDRCON_GETCALLER (ab ! IHDR_CONTENTS1) (ab ! IHDR_CONTENTS2)
                             then fcaller x else \<not> fcaller x)
                 then
                   do { (ok, w2) \<leftarrow> ficheck_errors (w1\<lparr>cIbad_hdr := cIbad_hdr w1 + 1\<rparr>);
                        if \<not> ok then Some (Return (False, w2, fexit, ffound, 0))
                        else Some (Continue
                               (w2\<lparr>iPrecstart := (iPrecstart w2 + 1) smod CRECBUFLEN x\<rparr>,
                                fexit, ffound)) }
                 else fiprocess_body x ab fexit ffound w1 } }"

partial_function (option) fiprocess_loop ::
    "'s extern \<Rightarrow> 's world \<times> bool \<times> bool \<Rightarrow> (bool \<times> 's world \<times> bool \<times> bool \<times> int) option" where
  "fiprocess_loop x s =
     (case s of (w, fexit, ffound) \<Rightarrow>
        if iPrecstart w \<noteq> iPrecend w then
          do { r \<leftarrow> fiprocess_iter x fexit ffound w;
               case r of Continue s' \<Rightarrow> fiprocess_loop x s' | Return res \<Rightarrow> Some res }
        else Some (True, w, fexit, ffound, CHDRLEN))"

text \<open>\<open>fiprocess_data\<close> returns its return value, the state, \<open>*pfexit\<close>, \<open>*pffound\<close> and
  \<open>*pcneed\<close> (which the C code sets whenever it returns TRUE).\<close>

definition fiprocess_data ::
    "'s extern \<Rightarrow> 's world \<Rightarrow> (bool \<times> 's world \<times> bool \<times> bool \<times> int) option" where
  "fiprocess_data x w = fiprocess_loop x (w, False, False)"

subsection \<open>Waiting for a packet\<close>

text \<open>The result of \<open>fiwait_for_packet\<close> is its return value, \<open>*pftimedout\<close> and the new
  state.  Time is not modelled: whether a read times out is the port's event.\<close>

partial_function (option) fiwait_loop ::
    "'s extern \<Rightarrow> int \<Rightarrow> int \<Rightarrow> int \<Rightarrow> int \<Rightarrow> 's world \<Rightarrow> (bool \<times> bool \<times> 's world) option" where
  "fiwait_loop x ctimeout cretries cshort ctimeouts w =
     do { (ok, w1, fexit, ffound, cneed) \<leftarrow> fiprocess_data x w;
          if \<not> ok then Some (False, False, w1)
          else if fexit then Some (True, False, w1)
          else if cneed = 0 then fiwait_loop x ctimeout cretries cshort ctimeouts w1
          else
            do { (ok2, crec, w2) \<leftarrow> freceive_data x cneed w1;
                 if \<not> ok2 then Some (False, False, w2)
                 else if crec \<noteq> 0 then
                   (if crec \<ge> cneed then fiwait_loop x ctimeout cretries 0 ctimeouts w2
                    else if cshort + 1 > 1
                    then fiwait_loop x ctimeout cretries 0 ctimeouts
                           (w2\<lparr>iPrecstart := (iPrecstart w2 + 1) smod CRECBUFLEN x\<rparr>)
                    else fiwait_loop x ctimeout cretries (cshort + 1) ctimeouts w2)
                 else if ctimeouts + 1 > cretries
                 then Some (False, True,
                            (if cretries > 0
                             then w2\<lparr>ulog := ulog w2 @ [''Timed out waiting for packet'']\<rparr>
                             else w2))
                 else if INEXTSEQ (iIremote_ack w2) \<noteq> iIsendseq w2 then
                   do { (ok3, w3) \<leftarrow> resend_packet x (INEXTSEQ (iIremote_ack w2)) w2;
                        if \<not> ok3 then Some (False, False, w3)
                        else fiwait_loop x ctimeout cretries cshort (ctimeouts + 1) w3 }
                 else
                   do { (ok3, w3) \<leftarrow> finak x (INEXTSEQ (iIrecseq w2)) w2;
                        if \<not> ok3 then Some (False, False, w3)
                        else fiwait_loop x ctimeout cretries cshort (ctimeouts + 1) w3 } } }"

definition fiwait_for_packet ::
    "'s extern \<Rightarrow> int \<Rightarrow> int \<Rightarrow> 's world \<Rightarrow> (bool \<times> bool \<times> 's world) option" where
  "fiwait_for_packet x ctimeout cretries w = fiwait_loop x ctimeout cretries 0 0 w"

definition fiwait :: "'s extern \<Rightarrow> 's world \<Rightarrow> (bool \<times> 's world) option" where
  "fiwait x w =
     do { (ok, ftimedout, w1) \<leftarrow> fiwait_for_packet x (cItimeout w) (cIretries w) w;
          Some (ok, w1) }"

subsection \<open>Sending data\<close>


text \<open>
  \<open>fisenddata\<close> in four parts.  Its argument \<open>zdata\<close> points \<open>CHDRSKIPLEN\<close> bytes into a
  send buffer, where the caller has put the \<open>cdata\<close> bytes to send; the model takes the
  buffer.  First the SPOS packet, when the file position changes.
\<close>

definition fisenddata_spos :: "'s extern \<Rightarrow> nat \<Rightarrow> int \<Rightarrow> 's world \<Rightarrow> (bool \<times> 's world) option" where
  "fisenddata_spos x zdata ipos w =
     (if ipos \<noteq> iIsendpos w \<and> ipos \<noteq> - 1 then
        do { let inext = INEXTSEQ (iIsendseq w);
             zspos \<leftarrow> aget (azIsendbuffers w) inext;
             bufs1 \<leftarrow> aset (azIsendbuffers w) inext zdata;
             bufs2 \<leftarrow> aset bufs1 (iIsendseq w) zspos;
             buf \<leftarrow> buffer_at w zspos;
             let hdr = set_check [IINTRO, to_char (IHDRWIN_SET (iIsendseq w) 0),
                         to_char (IHDRWIN_SET (iIrecseq w) 0),
                         to_char (IHDRCON_SET1 SPOS (fcaller x) CCKSUMLEN),
                         to_char (IHDRCON_SET2 SPOS (fcaller x) CCKSUMLEN), 0];
             let pos = UCKSUM_SET ipos;
             let icksum = icrc x pos (ICRCINIT x);
             buf' \<leftarrow> poke buf CHDROFFSET (hdr @ pos @ UCKSUM_SET icksum);
             pkt \<leftarrow> peek buf' CHDROFFSET (CHDRLEN + CCKSUMLEN + CCKSUMLEN);
             (ok, w1) \<leftarrow> fsend_data x pkt True
                           ((buffer_upd zspos buf' w)
                              \<lparr>azIsendbuffers := bufs2, iIlocal_ack := iIrecseq w\<rparr>);
             if \<not> ok then Some (False, w1)
             else Some (True, w1\<lparr>iIsendseq := INEXTSEQ (iIsendseq w1), iIsendpos := to_int32 ipos\<rparr>) }
      else Some (True, w))"







subsection \<open>The transfer requests of prot.c\<close>

text \<open>What \<open>sprintf\<close> prints for \<open>%o\<close> and \<open>%ld\<close>, and what \<open>strtol\<close> reads in base 8.\<close>

fun digits :: "nat \<Rightarrow> nat \<Rightarrow> string" where
  "digits b n =
     (if b < 2 \<or> n < b then [''0123456789'' ! n]
      else digits b (n div b) @ [''0123456789'' ! (n mod b)])"

declare digits.simps [simp del]

definition octal :: "nat \<Rightarrow> string" where
  "octal n = digits 8 n"

definition decimal :: "int \<Rightarrow> string" where
  "decimal i = (if i < 0 then ''-'' @ digits 10 (nat (- i)) else digits 10 (nat i))"

definition isspace :: "char \<Rightarrow> bool" where
  "isspace c = (c \<in> set [CHR '' '', CHR 0x09, CHR 0x0A, CHR 0x0B, CHR 0x0C, CHR 0x0D])"

fun octval :: "int \<Rightarrow> string \<Rightarrow> int" where
  "octval acc [] = acc"
| "octval acc (c # cs) =
     (if c \<in> set ''01234567'' then octval (acc * 8 + (int (of_char c) - 48)) cs else acc)"

definition strtol8 :: "int \<Rightarrow> string \<Rightarrow> int" where
  "strtol8 lmax s =
     (let s1 = dropWhile isspace s;
          neg = (s1 \<noteq> [] \<and> hd s1 = CHR ''-'');
          s2 = (if s1 \<noteq> [] \<and> (hd s1 = CHR ''-'' \<or> hd s1 = CHR ''+'') then tl s1 else s1);
          v = (if neg then - octval 0 s2 else octval 0 s2)
      in if v > lmax then lmax else if v < - lmax - 1 then - lmax - 1 else v)"

text \<open>The character \<open>z[i]\<close> of a C string: the terminating null after its last one.\<close>

definition cnth :: "string \<Rightarrow> nat \<Rightarrow> char" where
  "cnth z i = (if i < length z then z ! i else CHR 0x00)"

text \<open>The fields of \<open>struct scmd\<close> that prot.c uses.\<close>

record scmd =
  bcmd :: char
  pseq :: nat
  zfrom :: string
  zto :: string
  zuser :: string
  zoptions :: string
  ztemp :: string
  imode :: nat
  znotify :: string
  cbytes :: int

text \<open>
  What a transfer request does to the outside, in order: a command sent through the
  protocol, a wait for a command, a logged error, the file closed, the work record
  discarded (\<open>fsysdep_did_work\<close>), the file stored as the one being sent or received (with
  its mode), and the protocol loop entered.
\<close>

datatype pevent =
  Psendcmd string
| Pget_cmd
| Pulog string
| Pfileclose
| Pdid_work nat
| Pstore_sendfile
| Pstore_recfile nat
| Pploop

text \<open>
  What the outside answers: whether sending a command succeeds, the command that
  \<open>zpget_cmd\<close> returns (\<open>None\<close> for \<open>NULL\<close>), whether \<open>fstore_sendfile\<close> and
  \<open>fstore_recfile\<close> succeed, what the protocol loop \<open>fploop\<close> returns, and \<open>LONG_MAX\<close>.
\<close>

record penv =
  pfsendcmd :: "string \<Rightarrow> bool"
  zpget_cmd :: "string option"
  fstore_sendfile :: bool
  fstore_recfile :: bool
  fploop :: bool
  LONG_MAX :: int

definition fsend_file_cmd :: "scmd \<Rightarrow> bool \<Rightarrow> string" where
  "fsend_file_cmd qcmd fnew =
     (if \<not> fnew
      then ''S '' @ zfrom qcmd @ '' '' @ zto qcmd @ '' '' @ zuser qcmd @ '' -'' @ zoptions qcmd
             @ '' '' @ ztemp qcmd @ '' 0'' @ octal (imode qcmd) @ '' '' @ znotify qcmd
      else ''S '' @ zfrom qcmd @ '' '' @ zto qcmd @ '' '' @ zuser qcmd @ '' -'' @ zoptions qcmd
             @ '' '' @ ztemp qcmd @ '' 0'' @ octal (imode qcmd) @ '' ''
             @ (if cnth (znotify qcmd) 0 \<noteq> CHR 0x00 then znotify qcmd else [CHR 0x22, CHR 0x22])
             @ '' '' @ decimal (cbytes qcmd))"

text \<open>``Record the file we are sending, and let the protocol take over.''\<close>

definition fsend_file_start :: "penv \<Rightarrow> pevent list \<Rightarrow> bool \<times> pevent list" where
  "fsend_file_start env evs =
     (if \<not> fstore_sendfile env then (False, evs @ [Pstore_sendfile])
      else (fploop env, evs @ [Pstore_sendfile, Pploop]))"

definition fsend_file :: "penv \<Rightarrow> bool \<Rightarrow> scmd \<Rightarrow> bool \<Rightarrow> bool \<times> pevent list" where
  "fsend_file env fmaster qcmd fnew =
     (if fmaster then
        (let zsend = fsend_file_cmd qcmd fnew
         in if \<not> pfsendcmd env zsend then (False, [Psendcmd zsend, Pfileclose])
            else
              (case zpget_cmd env of
                 None \<Rightarrow> (False, [Psendcmd zsend, Pget_cmd, Pfileclose])
               | Some zrec \<Rightarrow>
                   if cnth zrec 0 \<noteq> CHR ''S''
                      \<or> (cnth zrec 1 \<noteq> CHR ''Y'' \<and> cnth zrec 1 \<noteq> CHR ''N'')
                   then (False, [Psendcmd zsend, Pget_cmd,
                                 Pulog ''Bad response to send request'', Pfileclose])
                   else if cnth zrec 1 = CHR ''N'' then
                     (if cnth zrec 2 = CHR ''2''
                      then (True, [Psendcmd zsend, Pget_cmd,
                                   Pulog (''Can't send '' @ zfrom qcmd @ '': permission denied''),
                                   Pdid_work (pseq qcmd), Pfileclose])
                      else if cnth zrec 2 = CHR ''4''
                      then (True, [Psendcmd zsend, Pget_cmd,
                                   Pulog (''Can't send '' @ zfrom qcmd
                                          @ '': remote cannot create work files''),
                                   Pfileclose])
                      else if cnth zrec 2 = CHR ''6''
                      then (True, [Psendcmd zsend, Pget_cmd,
                                   Pulog (zfrom qcmd @ '' is too big to send now''),
                                   Pfileclose])
                      else (True, [Psendcmd zsend, Pget_cmd,
                                   Pulog (''Can't send '' @ zfrom qcmd @ '': unknown reason''),
                                   Pdid_work (pseq qcmd), Pfileclose]))
                   else fsend_file_start env [Psendcmd zsend, Pget_cmd]))
      else
        (let absend = ''RY 0'' @ octal (imode qcmd)
         in if \<not> pfsendcmd env absend then (False, [Psendcmd absend, Pfileclose])
            else fsend_file_start env [Psendcmd absend]))"

definition freceive_file_cmd :: "scmd \<Rightarrow> bool \<Rightarrow> string" where
  "freceive_file_cmd qcmd fnew =
     (if \<not> fnew
      then ''R '' @ zfrom qcmd @ '' '' @ zto qcmd @ '' '' @ zuser qcmd @ '' -'' @ zoptions qcmd
      else ''R '' @ zfrom qcmd @ '' '' @ zto qcmd @ '' '' @ zuser qcmd @ '' -'' @ zoptions qcmd
             @ '' '' @ decimal (cbytes qcmd))"

definition freceive_file_start :: "penv \<Rightarrow> nat \<Rightarrow> pevent list \<Rightarrow> bool \<times> pevent list" where
  "freceive_file_start env mode evs =
     (if \<not> fstore_recfile env then (False, evs @ [Pstore_recfile mode])
      else (fploop env, evs @ [Pstore_recfile mode, Pploop]))"

definition freceive_file :: "penv \<Rightarrow> bool \<Rightarrow> scmd \<Rightarrow> bool \<Rightarrow> bool \<times> pevent list" where
  "freceive_file env fmaster qcmd fnew =
     (if fmaster then
        (let zsend = freceive_file_cmd qcmd fnew
         in if \<not> pfsendcmd env zsend then (False, [Psendcmd zsend, Pfileclose])
            else
              (case zpget_cmd env of
                 None \<Rightarrow> (False, [Psendcmd zsend, Pget_cmd, Pfileclose])
               | Some zrec \<Rightarrow>
                   if cnth zrec 0 \<noteq> CHR ''R''
                      \<or> (cnth zrec 1 \<noteq> CHR ''Y'' \<and> cnth zrec 1 \<noteq> CHR ''N'')
                   then (False, [Psendcmd zsend, Pget_cmd,
                                 Pulog ''Bad response to receive request'', Pfileclose])
                   else if cnth zrec 1 = CHR ''N'' then
                     (if cnth zrec 2 = CHR ''2''
                      then (True, [Psendcmd zsend, Pget_cmd,
                                   Pulog (''Can't receive '' @ zfrom qcmd @ '': no such file''),
                                   Pdid_work (pseq qcmd), Pfileclose])
                      else if cnth zrec 2 = CHR ''6''
                      then (True, [Psendcmd zsend, Pget_cmd,
                                   Pulog (zfrom qcmd @ '' is too big to receive''),
                                   Pfileclose])
                      else (True, [Psendcmd zsend, Pget_cmd,
                                   Pulog (''Can't receive '' @ zfrom qcmd @ '': unknown reason''),
                                   Pdid_work (pseq qcmd), Pfileclose]))
                   else
                     (let m = nat (strtol8 (LONG_MAX env) (drop 2 zrec) mod 4294967296)
                      in freceive_file_start env (if m = 0 then 438 else m)
                           [Psendcmd zsend, Pget_cmd])))
      else
        (if \<not> pfsendcmd env ''SY'' then (False, [Psendcmd ''SY'', Pfileclose])
         else freceive_file_start env (imode qcmd) [Psendcmd ''SY'']))"

text \<open>A request to send the file \<open>/a\<close> with mode 0644, and an outside that accepts
  everything and answers \<open>zrec\<close>.\<close>

definition cmd0 :: scmd where
  "cmd0 = \<lparr>bcmd = CHR ''S'', pseq = 1, zfrom = ''/a'', zto = ''/b'', zuser = ''usr'',
           zoptions = [], ztemp = ''tmp'', imode = 420, znotify = [], cbytes = 99\<rparr>"

definition env0 :: "string option \<Rightarrow> penv" where
  "env0 zrec = \<lparr>pfsendcmd = (\<lambda>z. True), zpget_cmd = zrec, fstore_sendfile = True,
                fstore_recfile = True, fploop = True, LONG_MAX = 2147483647\<rparr>"

subsection \<open>Startup and shutdown\<close>

text \<open>The initial values that \<open>fistart\<close> gives the statics.\<close>

definition fistart_init :: "'s world \<Rightarrow> 's world" where
  "fistart_init w =
     (let w1 = (if iIforced_remote_packsize w \<le> 0 \<or> iIforced_remote_packsize w \<ge> IMAXPACKSIZE
                then w\<lparr>iIforced_remote_packsize := 0\<rparr>
                else w\<lparr>iIremote_packsize := iIforced_remote_packsize w\<rparr>);
          w2 = (if iIforced_remote_winsize w1 \<le> 0 \<or> iIforced_remote_winsize w1 \<ge> IMAXSEQ
                then w1\<lparr>iIforced_remote_winsize := 0\<rparr>
                else w1\<lparr>iIremote_winsize := iIforced_remote_winsize w1\<rparr>)
      in w2\<lparr>iIsendseq := 1, iIrecseq := 0, iIlocal_ack := 0, iIremote_ack := 0,
            iIsendpos := 0, iIrecpos := 0, fIclosing := False,
            cIsent_packets := 0, cIreceived_packets := 0, cIresent_packets := 0,
            cIbad_hdr := 0, cIbad_order := 0, cIbad_cksum := 0, cIremote_rejects := 0\<rparr>)"

text \<open>The SYNC packet.\<close>

definition fistart_sync :: "'s extern \<Rightarrow> 's world \<Rightarrow> byte list" where
  "fistart_sync x w =
     (let hdr = set_check [IINTRO, to_char (IHDRWIN_SET 0 0), to_char (IHDRWIN_SET 0 0),
                   to_char (IHDRCON_SET1 SYNC (fcaller x) 3),
                   to_char (IHDRCON_SET2 SYNC (fcaller x) 3), 0];
          d = [to_char ((drop_bit 8 (iIrequest_packsize w)) AND 0xff),
               to_char (iIrequest_packsize w AND 0xff),
               to_char (iIrequest_winsize w)]
      in hdr @ d @ UCKSUM_SET (icrc x d (ICRCINIT x)))"

text \<open>The loop that sends the SYNC packet until one has come in.\<close>

partial_function (option) fistart_loop ::
    "'s extern \<Rightarrow> byte list \<Rightarrow> int \<Rightarrow> int \<Rightarrow> 's world \<Rightarrow> (bool \<times> 's world) option" where
  "fistart_loop x ab csyncs ctries w =
     do { (ok, w1) \<leftarrow> fsend_data x ab True w;
          if \<not> ok then Some (False, w1)
          else
            do { (ok2, ftimedout, w2) \<leftarrow> fiwait_for_packet x (cIsync_timeout w1) 0 w1;
                 if ok2 then
                   (if csyncs \<noteq> cIsyncs w2 then Some (True, w2)
                    else fistart_loop x ab csyncs ctries w2)
                 else if \<not> ftimedout then Some (False, w2)
                 else if ctries + 1 > cIsync_retries w2
                 then Some (False, w2\<lparr>ulog := ulog w2 @ [''Protocol startup failed'']\<rparr>)
                 else fistart_loop x ab csyncs (ctries + 1) w2 } }"

text \<open>
  The loop over the sequence numbers that sets up the buffers; the result is the final
  \<open>iseq\<close>.  A buffer that \<open>malloc\<close> returns is a new one at the end of \<open>mem\<close>, filled with
  zeros here (in C its contents are indeterminate); freed buffers stay in \<open>mem\<close>.
\<close>

function fistart_alloc :: "'s extern \<Rightarrow> int \<Rightarrow> 's world \<Rightarrow> (int \<times> 's world) option" where
  "fistart_alloc x iseq w =
     (if iseq < IMAXSEQ then
        do { recs \<leftarrow> aset (azIrecbuffers w) iseq None;
             naked \<leftarrow> aset (afInaked w) iseq False;
             let size = iIremote_packsize w + CHDRSKIPLEN + CCKSUMLEN;
             if 0 \<le> size \<and> malloc_ok x size then
               do { bufs \<leftarrow> aset (azIsendbuffers w) iseq (Suc (length (mem w)));
                    fistart_alloc x (iseq + 1)
                      (w\<lparr>azIrecbuffers := recs, afInaked := naked, azIsendbuffers := bufs,
                         mem := mem w @ [replicate (nat size) 0]\<rparr>) }
             else
               do { bufs \<leftarrow> aset (azIsendbuffers w) iseq 0;
                    Some (iseq, w\<lparr>azIrecbuffers := recs, afInaked := naked,
                                   azIsendbuffers := bufs\<rparr>) } }
      else Some (iseq, w))"
  by pat_completeness auto
termination
  by (relation "measure (\<lambda>(x, iseq, w). nat (IMAXSEQ - iseq))") auto

declare fistart_alloc.simps [simp del]

partial_function (option) fistart_bufs :: "'s extern \<Rightarrow> 's world \<Rightarrow> (bool \<times> 's world) option" where
  "fistart_bufs x w =
     do { (iseq, w1) \<leftarrow> fistart_alloc x 0 w;
          if iseq \<ge> IMAXSEQ then Some (True, w1)
          else if drop_bit 1 (iIremote_packsize w1) > 200
          then fistart_bufs x (w1\<lparr>iIremote_packsize := drop_bit 1 (iIremote_packsize w1)\<rparr>)
          else Some (False,
                     w1\<lparr>iIremote_packsize := drop_bit 1 (iIremote_packsize w1),
                        ulog := ulog w1
                          @ [''Protocol startup failed; insufficient memory for packets'']\<rparr>) }"

definition fistart :: "'s extern \<Rightarrow> 's world \<Rightarrow> (bool \<times> 's world) option" where
  "fistart x w =
     do { let w0 = fistart_init w;
          (ok, w1) \<leftarrow> fistart_loop x (fistart_sync x w0) (cIsyncs w0) 0 w0;
          if \<not> ok then Some (False, w1)
          else fistart_bufs x w1 }"



subsection \<open>A concrete link\<close>

text \<open>
  An environment with a ring of 64 bytes, a sum of bytes standing in for the CRC, and a
  session that keeps the data it is given and asks to leave the loop when the data hold a
  null byte (the end of a command); and the state after a startup in which
  the peer asked for packets of 8 bytes and a window of 16: 32 send buffers of 20 bytes, and
  the receive ring empty.
\<close>

definition ext0 :: "bool \<Rightarrow> byte list list extern" where
  "ext0 c = \<lparr>CRECBUFLEN = 64, ICRCINIT = 5,
         icrc = (\<lambda>bs c. (c + sum_list (map uint bs)) mod 4294967296),
         fgot_data = (\<lambda>w zf zs il ir pos fexit.
                        Some (True, 0 \<in> set (zf @ zs), w\<lparr>sess := sess w @ [zf @ zs]\<rparr>)),
         fLog_sighup = False, fcaller = c, char_signed = True, malloc_ok = (\<lambda>n. True),
         SIZE_MAX = 18446744073709551615\<rparr>"

definition link0 :: "byte list list world" where
  "link0 = \<lparr>iIrequest_packsize = 1024, iIrequest_winsize = 16, iIremote_packsize = 8,
      iIforced_remote_packsize = 0, iIremote_winsize = 16, iIforced_remote_winsize = 0,
      cIsync_timeout = 10, cIsync_retries = 6, cItimeout = 10, cIretries = 6,
      cIerrors = 100, cIerror_decay = 10,
      iIsendseq = 1, iIrecseq = 0, iIlocal_ack = 0, iIremote_ack = 0,
      iIsendpos = 0, iIrecpos = 0, fIclosing = False,
      azIsendbuffers = map Suc [0..<32], azIrecbuffers = replicate 32 None,
      afInaked = replicate 32 False,
      cIsyncs = 1, cIsent_packets = 0, cIreceived_packets = 1, cIresent_packets = 0,
      cIbad_hdr = 0, cIbad_order = 0, cIbad_cksum = 0, cIremote_rejects = 0,
      abPrecbuf = replicate 64 0, iPrecstart = 0, iPrecend = 0,
      mem = replicate 32 (replicate 20 0), sent = [], script = [], ulog = [], sess = []\<rparr>"

text \<open>The link with a port that takes the next packet whole and delivers nothing.\<close>

definition spos_sender :: "byte list list world" where
  "spos_sender = link0\<lparr>script := [PortIO 100 []]\<rparr>"

definition spos_after :: "byte list list world" where
  "spos_after = snd (the (fisenddata_spos (ext0 True) 2 4096 spos_sender))"

declare fiprocess_naks.simps [code]
declare fiprocess_stored.simps [code]
declare fiprocess_loop.simps [code]
declare fiwait_loop.simps [code]


declare fistart_loop.simps [code]
declare fistart_bufs.simps [code]


text \<open>
  The statics before the first session, with the default parameters, and a port that takes
  the SYNC packet, delivers the peer's SYNC packet (packets of 8 bytes, a window of
  \<open>win\<close>) and then takes \<open>n\<close> packets.
\<close>

definition boot :: "byte \<Rightarrow> nat \<Rightarrow> byte list list world" where
  "boot win n =
     \<lparr>iIrequest_packsize = 1024, iIrequest_winsize = 16, iIremote_packsize = 0,
      iIforced_remote_packsize = 0, iIremote_winsize = 0, iIforced_remote_winsize = 0,
      cIsync_timeout = 10, cIsync_retries = 6, cItimeout = 10, cIretries = 6,
      cIerrors = 100, cIerror_decay = 10,
      iIsendseq = 0, iIrecseq = 0, iIlocal_ack = 0, iIremote_ack = 0,
      iIsendpos = 0, iIrecpos = 0, fIclosing = False,
      azIsendbuffers = replicate 32 0, azIrecbuffers = replicate 32 None,
      afInaked = replicate 32 False,
      cIsyncs = 0, cIsent_packets = 0, cIreceived_packets = 0, cIresent_packets = 0,
      cIbad_hdr = 0, cIbad_order = 0, cIbad_cksum = 0, cIremote_rejects = 0,
      abPrecbuf = replicate 64 0, iPrecstart = 0, iPrecend = 0,
      mem = [], sent = [],
      script = [PortIO 100 [],
                PortIO 0 ([7, 0, 0, 32, 3, 35, 0, 8, win]
                          @ UCKSUM_SET ((5 + 8 + uint win) mod 4294967296))]
               @ replicate n (PortIO 100 []),
      ulog = [], sess = []\<rparr>"

text \<open>
  The link after five packets have been sent and none acknowledged, with a packet from the
  peer in the ring: an ACK that acknowledges packet 5, or an empty DATA packet, number 1,
  that acknowledges packet 20.
\<close>

definition ack_receiver :: "byte list \<Rightarrow> byte list list world" where
  "ack_receiver pkt =
     link0\<lparr>iIsendseq := 6, abPrecbuf := pkt @ replicate (64 - length pkt) 0,
           iPrecend := int (length pkt)\<rparr>"

text \<open>
  The link with a remote window of 8 that has received up to packet 1 and acknowledged
  up to packet 30, after NAKs for the packets 31, 0 and 1; the empty DATA packet 2 is in
  the ring, and the port takes one packet.
\<close>

definition unnak_receiver :: "byte list list world" where
  "unnak_receiver =
     link0\<lparr>iIremote_winsize := 8, iIrecseq := 1, iIlocal_ack := 30,
           afInaked := (replicate 32 False)[31 := True, 0 := True, 1 := True],
           abPrecbuf := [7, 16, 0, 0, 0, 16] @ replicate 58 0, iPrecend := 6,
           script := [PortIO 100 []]\<rparr>"

text \<open>The link with nothing to resend, and a port on which two reads time out, each
  followed by a packet taken whole.\<close>

definition nak_waiter :: "byte list list world" where
  "nak_waiter = link0\<lparr>script := [PortIO 0 [], PortIO 100 [], PortIO 0 [], PortIO 100 []]\<rparr>"

text \<open>The link with two copies of a DATA packet, number 1, whose checksum is wrong, in
  the ring.\<close>

definition cksum_receiver :: "byte list list world" where
  "cksum_receiver =
     link0\<lparr>abPrecbuf := [7, 8, 0, 0, 1, 9, 0, 0, 0, 0, 99, 7, 8, 0, 0, 1, 9, 0, 0, 0, 0, 99]
                          @ replicate 42 0,
           iPrecend := 22, script := [PortIO 100 [], PortIO 100 []]\<rparr>"

text \<open>
  What a run of the NAK loop from the state \<open>w\<close> to the state \<open>w'\<close> has done: it has
  handed to the port the NAKs for some sequence numbers \<open>js\<close>, all different, whose flags
  were clear and now are set; no flag that was set has been cleared.
\<close>

definition naks_run :: "'s extern \<Rightarrow> 's world \<Rightarrow> 's world \<Rightarrow> bool" where
  "naks_run x w w' \<longleftrightarrow>
     (\<exists>js. sent w' = sent w @ map (\<lambda>j. finak_packet x j w) js
        \<and> distinct js
        \<and> (\<forall>j\<in>set js. aget (afInaked w) j = Some False \<and> aget (afInaked w') j = Some True)
        \<and> (\<forall>j. aget (afInaked w) j = Some True \<longrightarrow> aget (afInaked w') j = Some True)
        \<and> length (afInaked w') = length (afInaked w)
        \<and> iIrecseq w' = iIrecseq w)"

text \<open>The link when packet 4 has come in after packet 0, a NAK for packet 2 having been
  sent before; the port takes two packets.\<close>

definition nak_looper :: "byte list list world" where
  "nak_looper = link0\<lparr>afInaked := (replicate 32 False)[2 := True],
                       script := [PortIO 100 [], PortIO 100 []]\<rparr>"

text \<open>
  What the receiving side leaves alone on the sending side: the next sequence number and,
  in every send buffer, all bytes but the acknowledgement and the check of the header
  (bytes 4 and 7 of the buffer).  \<open>send_inv s m w\<close> says that \<open>w\<close> agrees in this with the
  sequence number \<open>s\<close> and the buffers \<open>m\<close>; \<open>kept w w'\<close> that \<open>w'\<close> agrees with whatever
  \<open>w\<close> agrees with.
\<close>

definition send_inv :: "int \<Rightarrow> byte list list \<Rightarrow> 's world \<Rightarrow> bool" where
  "send_inv s m w \<longleftrightarrow>
     iIsendseq w = s \<and> length (mem w) = length m
     \<and> (\<forall>i<length m. length (mem w ! i) = length (m ! i)
            \<and> (\<forall>k<length (m ! i). k \<noteq> 4 \<longrightarrow> k \<noteq> 7 \<longrightarrow> mem w ! i ! k = m ! i ! k))"

definition kept :: "'s world \<Rightarrow> 's world \<Rightarrow> bool" where
  "kept w w' \<longleftrightarrow> (\<forall>s m. send_inv s m w \<longrightarrow> send_inv s m w')"




section \<open>Theorems\<close>

subsection \<open>Auxiliary facts\<close>

lemma and_mask_mod: "(i::int) AND mask n = i mod 2 ^ n"
  by (simp flip: take_bit_eq_mask add: take_bit_eq_mod)

lemma and_31: "(i::int) AND 31 = i mod 32"
  using and_mask_mod [of i 5] by (simp add: mask_eq_exp_minus_1)

lemma and_255: "(i::int) AND 255 = i mod 256"
  using and_mask_mod [of i 8] by (simp add: mask_eq_exp_minus_1)



lemma INEXTSEQ_mod: "INEXTSEQ i = (i + 1) mod 32"
  by (simp add: INEXTSEQ_def IMAXSEQ_def and_31)

lemma CSEQDIFF_mod: "CSEQDIFF a b = (a + 32 - b) mod 32"
  by (simp add: CSEQDIFF_def IMAXSEQ_def and_31)

lemma push_or_add: "0 \<le> c \<Longrightarrow> c < 2 ^ n \<Longrightarrow> push_bit n (s::int) OR c = s * 2 ^ n + c"
proof -
  assume a: "0 \<le> c" "c < 2 ^ n"
  have "take_bit n c = c" using a by (simp add: take_bit_int_eq_self)
  then have "push_bit n s OR c = push_bit n s OR take_bit n c" by simp
  also have "\<dots> = push_bit n s + take_bit n c"
    by (rule disjunctive_add [symmetric]) (auto simp: bit_simps)
  finally show ?thesis using \<open>take_bit n c = c\<close> by (simp add: push_bit_eq_mult)
qed

lemma uint_to_char: "uint (to_char i) = i mod 256"
  by (simp add: to_char_def uint_word_of_int)

lemma IHDRWIN_SET_add: "0 \<le> c \<Longrightarrow> c < 8 \<Longrightarrow> IHDRWIN_SET s c = s * 8 + c"
  using push_or_add [of c 3 s] by (simp add: IHDRWIN_SET_def)

lemma getseq_set: "0 \<le> s \<Longrightarrow> s < 32 \<Longrightarrow> 0 \<le> c \<Longrightarrow> c < 8 \<Longrightarrow>
   IHDRWIN_GETSEQ (to_char (IHDRWIN_SET s c)) = s"
  by (simp add: IHDRWIN_GETSEQ_def IHDRWIN_SET_add uint_to_char and_31 drop_bit_eq_div)


lemma to_int32_id: "0 \<le> p \<Longrightarrow> p < 2 ^ 31 \<Longrightarrow> to_int32 p = p"
  by (simp add: to_int32_def int_word_sint)

lemma to_int32_take_bit: "to_int32 (take_bit 32 p) = to_int32 p"
  by (simp add: to_int32_def int_word_sint take_bit_eq_mod mod_add_left_eq)

lemma peek_poke: "poke buf p bs = Some buf' \<Longrightarrow> peek buf' p (int (length bs)) = Some bs"
  by (auto simp: poke_def peek_def split: if_splits)


lemma fsend_data_loop_frame:
  "fsend_data_loop x rd n w = Some (r, w') \<Longrightarrow>
     \<exists>s b e. w' = w\<lparr>script := s, abPrecbuf := b, iPrecend := e\<rparr>"
proof (induction x rd n w arbitrary: r w' rule: fsend_data_loop.induct)
  case (1 x fdoread csend w)
  have triv: "w = w\<lparr>script := script w, abPrecbuf := abPrecbuf w, iPrecend := iPrecend w\<rparr>" by simp
  show ?case
  proof (cases "csend > 0")
    case False
    with "1.prems" have "w' = w" by (simp add: fsend_data_loop.simps)
    with triv show ?thesis by metis
  next
    case True
    show ?thesis
    proof (cases "script w")
      case Nil
      with True "1.prems" have "w' = w" by (simp add: fsend_data_loop.simps)
      with triv show ?thesis by metis
    next
      case (Cons ev es)
      show ?thesis
      proof (cases ev)
        case PortErr
        with True Cons "1.prems" have "w' = w\<lparr>script := es\<rparr>" by (simp add: fsend_data_loop.simps)
        then have "w' = w\<lparr>script := es, abPrecbuf := abPrecbuf w, iPrecend := iPrecend w\<rparr>" by simp
        then show ?thesis by blast
      next
        case (PortIO n bs)
        obtain zrec crec where rs: "(zrec, crec) = recspace x w" by (cases "recspace x w") auto
        from True Cons PortIO rs [symmetric] "1.prems" obtain buf where
          pk: "poke (abPrecbuf w) zrec (if fdoread then take (nat crec) bs else []) = Some buf" and
          rec: "fsend_data_loop x fdoread (csend - min (int n) csend)
                  (w\<lparr>script := es, abPrecbuf := buf,
                     iPrecend := (iPrecend w + int (length (if fdoread then take (nat crec) bs else [])))
                                   smod CRECBUFLEN x\<rparr>) = Some (r, w')"
          by (subst (asm) fsend_data_loop.simps) (auto simp: Let_def split: option.splits)
        from "1.IH" [OF True Cons PortIO rs refl refl pk rec]
        obtain s b e where "w' = (w\<lparr>script := es, abPrecbuf := buf,
                     iPrecend := (iPrecend w + int (length (if fdoread then take (nat crec) bs else [])))
                                   smod CRECBUFLEN x\<rparr>)\<lparr>script := s, abPrecbuf := b, iPrecend := e\<rparr>"
          by blast
        then have "w' = w\<lparr>script := s, abPrecbuf := b, iPrecend := e\<rparr>" by simp
        then show ?thesis by blast
      qed
    qed
  qed
qed

lemma fsend_data_frame:
  "fsend_data x z rd w = Some (r, w') \<Longrightarrow>
     \<exists>s b e. w' = w\<lparr>sent := sent w @ [z], script := s, abPrecbuf := b, iPrecend := e\<rparr>"
  unfolding fsend_data_def by (drule fsend_data_loop_frame) auto

lemma and_255_take: "(i::int) AND 255 = take_bit 8 i"
  using take_bit_eq_mask [of 8 i] by (simp add: mask_eq_exp_minus_1)

lemma uint_to_char_take: "uint (to_char i) = take_bit 8 i"
  by (simp add: to_char_def uint_word_of_int take_bit_eq_mod)

lemma cksum_get_set: "ICKSUM_GET (UCKSUM_SET i) = take_bit 32 i"
  unfolding ICKSUM_GET_def UCKSUM_SET_def
  apply (simp add: and_255_take uint_to_char_take)
  apply (rule bit_eqI)
  apply (simp add: bit_simps)
  apply (auto simp: algebra_simps)
  subgoal for n by (cases "16 \<le> n") auto
  subgoal for n by (cases "24 \<le> n"; cases "16 \<le> n") auto
  done

lemma set_check_length: "length (set_check h) = length h"
  by (simp add: set_check_def)

lemma set_check_nth: "i \<noteq> 5 \<Longrightarrow> set_check h ! i = h ! i"
  by (simp add: set_check_def IHDR_CHECK_def)

lemma buffer_at_upd_same:
  "buffer_at w p = Some b \<Longrightarrow> buffer_at (buffer_upd p b' w) p = Some b'"
  by (auto simp: buffer_at_def buffer_upd_def aget_def nat_diff_distrib split: if_splits)

lemma buffer_upd_fields [simp]:
  "iIsendseq (buffer_upd p b w) = iIsendseq w"
  "iIrecseq (buffer_upd p b w) = iIrecseq w"
  "iIremote_ack (buffer_upd p b w) = iIremote_ack w"
  "iIremote_winsize (buffer_upd p b w) = iIremote_winsize w"
  "iIsendpos (buffer_upd p b w) = iIsendpos w"
  "azIsendbuffers (buffer_upd p b w) = azIsendbuffers w"
  "sent (buffer_upd p b w) = sent w"
  by (simp_all add: buffer_upd_def)

lemma aget_Some: "aget xs i = Some v \<longleftrightarrow> 0 \<le> i \<and> nat i < length xs \<and> xs ! nat i = v"
  by (auto simp: aget_def)

lemma aset_Some: "aset xs i v = Some ys \<longleftrightarrow> 0 \<le> i \<and> nat i < length xs \<and> ys = xs[nat i := v]"
  by (auto simp: aset_def)

lemma INEXTSEQ_range: "0 \<le> INEXTSEQ i \<and> INEXTSEQ i < 32"
  by (simp add: INEXTSEQ_mod)

lemma INEXTSEQ_neq: "0 \<le> i \<Longrightarrow> i < 32 \<Longrightarrow> INEXTSEQ i \<noteq> i"
  by (simp add: INEXTSEQ_mod) presburger

lemma spos_type: "THDRCON_GETTYPE (to_char (IHDRCON_SET1 SPOS c CCKSUMLEN)) b = SPOS"
  by (cases c) (simp_all add: THDRCON_GETTYPE_def IHDRCON_SET1_def SPOS_def CCKSUMLEN_def uint_to_char)

lemma spos_bytes:
  "CHDRCON_GETBYTES (to_char (IHDRCON_SET1 SPOS c CCKSUMLEN)) (to_char (IHDRCON_SET2 SPOS c CCKSUMLEN)) = 4"
  by (cases c) (simp_all add: CHDRCON_GETBYTES_def IHDRCON_SET1_def IHDRCON_SET2_def SPOS_def CCKSUMLEN_def uint_to_char)

lemma UCKSUM_SET_bytes:
  "map uint (UCKSUM_SET i) = [i div 16777216 mod 256, i div 65536 mod 256, i div 256 mod 256, i mod 256]"
  by (simp add: UCKSUM_SET_def uint_to_char and_255 drop_bit_eq_div)

lemma UCKSUM_SET_length: "length (UCKSUM_SET i) = 4"
  by (simp add: UCKSUM_SET_def)

lemma fiprocess_packet_spos:
  assumes "THDRCON_GETTYPE (zhdr ! IHDR_CONTENTS1) (zhdr ! IHDR_CONTENTS2) = SPOS"
      and "k \<le> 4"
  shows "fiprocess_packet xr zhdr (take k (UCKSUM_SET pos)) (drop k (UCKSUM_SET pos)) fexit wr
           = Some (True, fexit, wr\<lparr>iIrecpos := to_int32 pos\<rparr>)"
proof -
  have len: "length (UCKSUM_SET pos) = 4" by (rule UCKSUM_SET_length)
  have ty: "THDRCON_GETTYPE (zhdr ! IHDR_CONTENTS1) (zhdr ! IHDR_CONTENTS2) \<noteq> DATA"
           "THDRCON_GETTYPE (zhdr ! IHDR_CONTENTS1) (zhdr ! IHDR_CONTENTS2) \<noteq> SYNC"
           "THDRCON_GETTYPE (zhdr ! IHDR_CONTENTS1) (zhdr ! IHDR_CONTENTS2) \<noteq> ACK"
           "THDRCON_GETTYPE (zhdr ! IHDR_CONTENTS1) (zhdr ! IHDR_CONTENTS2) \<noteq> NAK"
    using assms(1) by (simp_all add: SPOS_def DATA_def SYNC_def ACK_def NAK_def)
  show ?thesis
  proof (cases "k = 4")
    case True
    then show ?thesis
      using assms(1) ty len
      by (simp add: fiprocess_packet_def Let_def peek_def CCKSUMLEN_def cksum_get_set to_int32_take_bit)
  next
    case False
    with assms(2) have "k < 4" by simp
    then show ?thesis
      using assms(1) ty len
      by (simp add: fiprocess_packet_def Let_def peek_def CCKSUMLEN_def cksum_get_set to_int32_take_bit
            min_def)
  qed
qed

text \<open>
  C7.  With a non-negative error limit (and an error decay other than 0, without which
  the C division has no result), \<open>ficheck_errors\<close> fails exactly when
  \<open>(bad_hdr + bad_cksum + bad_order + remote_rejects) - received_packets / error_decay\<close>
  exceeds \<open>errors\<close>, the division truncating; a failure logs the error, a success changes
  nothing.
\<close>

theorem ficheck_errors_budget:
  assumes "0 \<le> cIerrors w" and "cIerror_decay w \<noteq> 0"
  shows "ficheck_errors w =
     (if (cIbad_hdr w + cIbad_cksum w + cIbad_order w + cIremote_rejects w)
            - (cIreceived_packets w sdiv cIerror_decay w) > cIerrors w
      then Some (False, w\<lparr>ulog := ulog w @ [''Too many 'i' protocol errors'']\<rparr>)
      else Some (True, w))"
  using assms by (simp add: ficheck_errors_def add.commute add.left_commute)

theorem ficheck_errors_budget_witness:
  "fst (the (ficheck_errors (budget_world 100 10 103 25))) = False
   \<and> fst (the (ficheck_errors (budget_world 100 10 102 25))) = True
   \<and> fst (the (ficheck_errors (budget_world 100 (-10) 98 25))) = True
   \<and> fst (the (ficheck_errors (budget_world 100 (-10) 99 25))) = False"
proof -
  have a: "fst (the (ficheck_errors (budget_world 100 10 103 25))) = False"
    using ficheck_errors_budget [of "budget_world 100 10 103 25"]
    by (simp add: budget_world_def signed_divide_int_def)
  have b: "fst (the (ficheck_errors (budget_world 100 10 102 25))) = True"
    using ficheck_errors_budget [of "budget_world 100 10 102 25"]
    by (simp add: budget_world_def signed_divide_int_def)
  have c: "fst (the (ficheck_errors (budget_world 100 (-10) 98 25))) = True"
    using ficheck_errors_budget [of "budget_world 100 (-10) 98 25"]
    by (simp add: budget_world_def signed_divide_int_def)
  have d: "fst (the (ficheck_errors (budget_world 100 (-10) 99 25))) = False"
    using ficheck_errors_budget [of "budget_world 100 (-10) 99 25"]
    by (simp add: budget_world_def signed_divide_int_def)
  from a b c d show ?thesis by simp
qed

text \<open>
  C10.  With a negative error limit \<open>ficheck_errors\<close> succeeds whatever the counters
  and the error decay are, and changes nothing: the budget is switched off.
\<close>

theorem ficheck_errors_disabled:
  "cIerrors w < 0 \<Longrightarrow> ficheck_errors w = Some (True, w)"
  by (simp add: ficheck_errors_def)

theorem ficheck_errors_disabled_witness:
  "ficheck_errors (budget_world (-1) 0 1000000 0) = Some (True, budget_world (-1) 0 1000000 0)"
  using ficheck_errors_disabled [of "budget_world (-1) 0 1000000 0"]
  by (simp add: budget_world_def)

text \<open>
  C8.  \<open>fsend_file\<close> as master, once the request is sent and the reply starts with \<open>SN\<close>:
  it returns TRUE, logs one error and closes the file, starts no transfer, and discards the
  work record (\<open>fsysdep_did_work\<close>) exactly when the character after \<open>SN\<close> is neither
  \<open>4\<close> nor \<open>6\<close>.  And whenever \<open>fsend_file\<close> as master returns FALSE, the request could
  not be sent, or no reply came, or the reply was none of \<open>SY\<close> and \<open>SN\<close>, or the transfer
  that was started failed (\<open>fstore_sendfile\<close> or the protocol loop).
\<close>

theorem fsend_file_reply_SN:
  "(pfsendcmd env (fsend_file_cmd qcmd fnew) \<and> zpget_cmd env = Some zrec
      \<and> cnth zrec 0 = CHR ''S'' \<and> cnth zrec 1 = CHR ''N''
    \<longrightarrow> fst (fsend_file env True qcmd fnew) = True
        \<and> Pfileclose \<in> set (snd (fsend_file env True qcmd fnew))
        \<and> length (filter (\<lambda>e. case e of Pulog m \<Rightarrow> True | _ \<Rightarrow> False)
                    (snd (fsend_file env True qcmd fnew))) = 1
        \<and> Pstore_sendfile \<notin> set (snd (fsend_file env True qcmd fnew))
        \<and> Pploop \<notin> set (snd (fsend_file env True qcmd fnew))
        \<and> ((\<exists>n. Pdid_work n \<in> set (snd (fsend_file env True qcmd fnew)))
             \<longleftrightarrow> cnth zrec 2 \<noteq> CHR ''4'' \<and> cnth zrec 2 \<noteq> CHR ''6'')
        \<and> (Pdid_work (pseq qcmd) \<in> set (snd (fsend_file env True qcmd fnew))
             \<longleftrightarrow> cnth zrec 2 \<noteq> CHR ''4'' \<and> cnth zrec 2 \<noteq> CHR ''6''))
   \<and> (fst (fsend_file env True qcmd fnew) = False
      \<longrightarrow> \<not> pfsendcmd env (fsend_file_cmd qcmd fnew)
          \<or> zpget_cmd env = None
          \<or> (\<exists>zrec. zpget_cmd env = Some zrec
                \<and> (cnth zrec 0 \<noteq> CHR ''S'' \<or> (cnth zrec 1 \<noteq> CHR ''Y'' \<and> cnth zrec 1 \<noteq> CHR ''N'')))
          \<or> \<not> fstore_sendfile env \<or> \<not> fploop env)"
  by (auto simp: fsend_file_def fsend_file_start_def Let_def split: option.splits)

theorem fsend_file_reply_SN_witness:
  "fsend_file (env0 (Some ''SN6'')) True cmd0 True =
     (True, [Psendcmd (''S /a /b usr - tmp 0644 '' @ [CHR 0x22, CHR 0x22] @ '' 99''), Pget_cmd,
             Pulog ''/a is too big to send now'', Pfileclose])
   \<and> fsend_file (env0 (Some ''SN4'')) True cmd0 False =
     (True, [Psendcmd ''S /a /b usr - tmp 0644 '', Pget_cmd,
             Pulog ''Can't send /a: remote cannot create work files'', Pfileclose])
   \<and> fsend_file (env0 (Some ''SN'')) True cmd0 False =
     (True, [Psendcmd ''S /a /b usr - tmp 0644 '', Pget_cmd,
             Pulog ''Can't send /a: unknown reason'', Pdid_work 1, Pfileclose])
   \<and> fsend_file (env0 None) True cmd0 False =
     (False, [Psendcmd ''S /a /b usr - tmp 0644 '', Pget_cmd, Pfileclose])"
  using fsend_file_reply_SN [of "env0 (Some ''SN6'')" cmd0 True "''SN6''"]
        fsend_file_reply_SN [of "env0 None" cmd0 False "[]"]
  by (simp add: fsend_file_def fsend_file_cmd_def env0_def cmd0_def cnth_def octal_def decimal_def
        digits.simps)

text \<open>
  C4.  The claim as stated fails: the slave's reply to a send request that it accepts is
  not \<open>SY 0mode\<close>.
\<close>

theorem freceive_file_slave_counterexample:
  "Psendcmd (''SY 0'' @ octal (imode cmd0)) \<notin> set (snd (freceive_file (env0 None) False cmd0 False))
   \<and> ''SY 0'' @ octal (imode cmd0) = ''SY 0644''
   \<and> snd (freceive_file (env0 None) False cmd0 False)
       = [Psendcmd ''SY'', Pstore_recfile 420, Pploop]"
  by (simp add: freceive_file_def freceive_file_start_def env0_def cmd0_def octal_def digits.simps)

text \<open>
  C4, amended.  As slave \<open>freceive_file\<close> sends the two characters \<open>SY\<close> and no other
  command; the mode of the request goes to \<open>fstore_recfile\<close>, not into the reply.
\<close>

theorem freceive_file_slave_reply:
  "hd (snd (freceive_file env False qcmd fnew)) = Psendcmd ''SY''
   \<and> filter (\<lambda>e. case e of Psendcmd z \<Rightarrow> True | _ \<Rightarrow> False) (snd (freceive_file env False qcmd fnew))
       = [Psendcmd ''SY'']
   \<and> (pfsendcmd env ''SY''
        \<longrightarrow> Pstore_recfile (imode qcmd) \<in> set (snd (freceive_file env False qcmd fnew)))"
  by (simp add: freceive_file_def freceive_file_start_def)

theorem freceive_file_slave_reply_witness:
  "pfsendcmd (env0 None) ''SY''
   \<and> freceive_file (env0 None) False cmd0 True = (True, [Psendcmd ''SY'', Pstore_recfile 420, Pploop])"
  using freceive_file_slave_reply [of "env0 None" cmd0 True]
  by (simp add: freceive_file_def freceive_file_start_def env0_def cmd0_def)

text \<open>
  C9, as stated, fails at the position \<open>2^31\<close>: \<open>iIsendpos\<close> and \<open>iIrecpos\<close> are
  \<open>int\<close> objects, and both the sender and a receiver of the SPOS packet end with
  \<open>-2^31\<close>.
\<close>

theorem spos_roundtrip_counterexample:
  "map_option (\<lambda>(r, w). (r, iIsendpos w, sent w))
       (fisenddata_spos (ext0 True) 2 2147483648 spos_sender)
     = Some (True, - 2147483648, [[7, 8, 0, 144, 4, 156, 128, 0, 0, 0, 0, 0, 0, 133]])
   \<and> map_option (\<lambda>(r, e, w). (r, iIrecpos w))
       (fiprocess_packet (ext0 False) [7, 8, 0, 144, 4, 156] [128, 0, 0, 0] [] False link0)
     = Some (True, - 2147483648)
   \<and> map_option (\<lambda>(r, e, w). (r, iIrecpos w))
       (fiprocess_packet (ext0 False) [7, 8, 0, 144, 4, 156] [128, 0] [0, 0] False link0)
     = Some (True, - 2147483648)"
  by code_simp

text \<open>
  C9, amended: for a position \<open>pos\<close> with \<open>0 \<le> pos < 2^31\<close> that differs from
  \<open>iIsendpos\<close>, the SPOS part of \<open>fisenddata\<close>, when its send succeeds, hands to the port
  one packet of 14 bytes, of type SPOS with 4 data bytes, numbered \<open>iIsendseq\<close>, whose
  data are \<open>pos\<close> in big-endian order.  The packet lies in the buffer that was in the
  following slot and now is in slot \<open>iIsendseq\<close>; the buffer with the pending data is in the
  following slot; \<open>iIsendseq\<close> has advanced and \<open>iIsendpos\<close> is \<open>pos\<close>.  A receiver that
  dispatches the packet through \<open>fiprocess_packet\<close> sets \<open>iIrecpos\<close> to \<open>pos\<close>, however
  the four data bytes are split over the two spans.
\<close>

theorem spos_roundtrip:
  assumes pos: "0 \<le> pos" "pos < 2 ^ 31" "pos \<noteq> iIsendpos w"
      and seq: "0 \<le> iIsendseq w" "iIsendseq w < 32"
      and run: "fisenddata_spos x zdata pos w = Some (True, w')"
  shows "\<exists>pkt zspos buf.
           sent w' = sent w @ [pkt]
         \<and> length pkt = 14
         \<and> THDRCON_GETTYPE (pkt ! IHDR_CONTENTS1) (pkt ! IHDR_CONTENTS2) = SPOS
         \<and> CHDRCON_GETBYTES (pkt ! IHDR_CONTENTS1) (pkt ! IHDR_CONTENTS2) = 4
         \<and> IHDRWIN_GETSEQ (pkt ! IHDR_LOCAL) = iIsendseq w
         \<and> map uint (take 4 (drop 6 pkt))
             = [pos div 16777216 mod 256, pos div 65536 mod 256, pos div 256 mod 256, pos mod 256]
         \<and> aget (azIsendbuffers w) (INEXTSEQ (iIsendseq w)) = Some zspos
         \<and> aget (azIsendbuffers w') (iIsendseq w) = Some zspos
         \<and> buffer_at w' zspos = Some buf \<and> peek buf CHDROFFSET 14 = Some pkt
         \<and> aget (azIsendbuffers w') (INEXTSEQ (iIsendseq w)) = Some zdata
         \<and> iIsendseq w' = INEXTSEQ (iIsendseq w)
         \<and> iIsendpos w' = pos
         \<and> (\<forall>k\<le>4. \<forall>xr fexit. \<forall>wr :: 'r world.
               fiprocess_packet xr (take 6 pkt) (take k (take 4 (drop 6 pkt)))
                   (drop k (take 4 (drop 6 pkt))) fexit wr
                 = Some (True, fexit, wr\<lparr>iIrecpos := pos\<rparr>))"
proof -
  define hdr where "hdr = set_check [IINTRO, to_char (IHDRWIN_SET (iIsendseq w) 0),
                         to_char (IHDRWIN_SET (iIrecseq w) 0),
                         to_char (IHDRCON_SET1 SPOS (fcaller x) CCKSUMLEN),
                         to_char (IHDRCON_SET2 SPOS (fcaller x) CCKSUMLEN), 0]"
  define pkt where "pkt = hdr @ UCKSUM_SET pos @ UCKSUM_SET (icrc x (UCKSUM_SET pos) (ICRCINIT x))"
  have lenh: "length hdr = 6" by (simp add: hdr_def set_check_length)
  have lenp: "length pkt = 14" by (simp add: pkt_def lenh UCKSUM_SET_length)
  from run pos obtain zspos bufs1 bufs2 buf buf' pk w1 where
    g1: "aget (azIsendbuffers w) (INEXTSEQ (iIsendseq w)) = Some zspos" and
    s1: "aset (azIsendbuffers w) (INEXTSEQ (iIsendseq w)) zdata = Some bufs1" and
    s2: "aset bufs1 (iIsendseq w) zspos = Some bufs2" and
    b: "buffer_at w zspos = Some buf" and
    pk: "poke buf CHDROFFSET pkt = Some buf'" and
    pe: "peek buf' CHDROFFSET (CHDRLEN + CCKSUMLEN + CCKSUMLEN) = Some pk" and
    sd: "fsend_data x pk True ((buffer_upd zspos buf' w)\<lparr>azIsendbuffers := bufs2, iIlocal_ack := iIrecseq w\<rparr>)
           = Some (True, w1)" and
    w': "w' = w1\<lparr>iIsendseq := INEXTSEQ (iIsendseq w1), iIsendpos := to_int32 pos\<rparr>"
    unfolding fisenddata_spos_def hdr_def pkt_def
    by (auto simp: Let_def bind_eq_Some_conv split: if_splits)
  from peek_poke [OF pk] pe have pkeq: "pk = pkt"
    by (simp add: lenp CHDRLEN_def CCKSUMLEN_def)
  from fsend_data_frame [OF sd] obtain s bb e where
    w1: "w1 = ((buffer_upd zspos buf' w)\<lparr>azIsendbuffers := bufs2, iIlocal_ack := iIrecseq w\<rparr>)
                \<lparr>sent := sent w @ [pk], script := s, abPrecbuf := bb, iPrecend := e\<rparr>"
    by (auto simp: buffer_upd_def)
  have nx: "INEXTSEQ (iIsendseq w) \<noteq> iIsendseq w" using seq by (rule INEXTSEQ_neq)
  have nxr: "0 \<le> INEXTSEQ (iIsendseq w)" "INEXTSEQ (iIsendseq w) < 32" using INEXTSEQ_range by auto
  have natne: "nat (INEXTSEQ (iIsendseq w)) \<noteq> nat (iIsendseq w)" using nx nxr seq by simp
  have c1: "sent w' = sent w @ [pkt]" by (simp add: w' w1 pkeq)
  have c3: "THDRCON_GETTYPE (pkt ! IHDR_CONTENTS1) (pkt ! IHDR_CONTENTS2) = SPOS"
    by (simp add: pkt_def hdr_def set_check_nth set_check_length nth_append IHDR_CONTENTS1_def IHDR_CONTENTS2_def spos_type)
  have c4: "CHDRCON_GETBYTES (pkt ! IHDR_CONTENTS1) (pkt ! IHDR_CONTENTS2) = 4"
    by (simp add: pkt_def hdr_def set_check_nth set_check_length nth_append IHDR_CONTENTS1_def IHDR_CONTENTS2_def spos_bytes)
  have c5: "IHDRWIN_GETSEQ (pkt ! IHDR_LOCAL) = iIsendseq w"
    using seq by (simp add: pkt_def hdr_def set_check_nth set_check_length nth_append IHDR_LOCAL_def getseq_set)
  have pay: "take 4 (drop 6 pkt) = UCKSUM_SET pos"
    by (simp add: pkt_def lenh UCKSUM_SET_length)
  have c6: "map uint (take 4 (drop 6 pkt))
             = [pos div 16777216 mod 256, pos div 65536 mod 256, pos div 256 mod 256, pos mod 256]"
    by (simp add: pay UCKSUM_SET_bytes)
  have c8: "aget (azIsendbuffers w') (iIsendseq w) = Some zspos"
    using s1 s2 seq by (auto simp: w' w1 aset_Some aget_Some)
  have c9: "buffer_at w' zspos = Some buf'"
    using buffer_at_upd_same [OF b, of buf'] by (simp add: w' w1 buffer_at_def buffer_upd_def)
  have c10: "peek buf' CHDROFFSET 14 = Some pkt"
    using pe pkeq by (simp add: CHDRLEN_def CCKSUMLEN_def)
  have c11: "aget (azIsendbuffers w') (INEXTSEQ (iIsendseq w)) = Some zdata"
    using s1 s2 seq natne by (auto simp: w' w1 aset_Some aget_Some)
  have c12: "iIsendseq w' = INEXTSEQ (iIsendseq w)" by (simp add: w' w1 buffer_upd_def)
  have c13: "iIsendpos w' = pos" using pos by (simp add: w' to_int32_id)
  have hd6: "take 6 pkt = hdr" by (simp add: pkt_def lenh)
  have ty: "THDRCON_GETTYPE (take 6 pkt ! IHDR_CONTENTS1) (take 6 pkt ! IHDR_CONTENTS2) = SPOS"
    using c3 by (simp add: IHDR_CONTENTS1_def IHDR_CONTENTS2_def)
  have c14: "\<forall>k\<le>4. \<forall>xr fexit. \<forall>wr :: 'r world.
               fiprocess_packet xr (take 6 pkt) (take k (take 4 (drop 6 pkt)))
                   (drop k (take 4 (drop 6 pkt))) fexit wr
                 = Some (True, fexit, wr\<lparr>iIrecpos := pos\<rparr>)"
    using pos by (simp add: pay to_int32_id fiprocess_packet_spos [OF ty])
  show ?thesis
    by (rule exI [where x = pkt], rule exI [where x = zspos], rule exI [where x = buf'])
       (intro conjI c1 lenp c3 c4 c5 c6 g1 c8 c9 c10 c11 c12 c13 c14)
qed

theorem spos_roundtrip_witness:
  "(0::int) \<le> 4096 \<and> (4096::int) < 2 ^ 31 \<and> 4096 \<noteq> iIsendpos spos_sender
   \<and> 0 \<le> iIsendseq spos_sender \<and> iIsendseq spos_sender < 32
   \<and> fisenddata_spos (ext0 True) 2 4096 spos_sender = Some (True, spos_after)
   \<and> sent spos_after = [[7, 8, 0, 144, 4, 156, 0, 0, 16, 0, 0, 0, 0, 21]]
   \<and> iIsendseq spos_after = 2 \<and> iIsendpos spos_after = 4096
   \<and> fiprocess_packet (ext0 False) [7, 8, 0, 144, 4, 156] [0, 0, 16, 0] [] False link0
       = Some (True, False, link0\<lparr>iIrecpos := 4096\<rparr>)
   \<and> fiprocess_packet (ext0 False) [7, 8, 0, 144, 4, 156] [0] [0, 16, 0] False link0
       = Some (True, False, link0\<lparr>iIrecpos := 4096\<rparr>)
   \<and> fiprocess_packet (ext0 False) [7, 8, 0, 144, 4, 156] [] [0, 0, 16, 0] False link0
       = Some (True, False, link0\<lparr>iIrecpos := 4096\<rparr>)"
proof -
  have ev: "map_option (\<lambda>(r, w). (r, sent w))
              (fisenddata_spos (ext0 True) 2 4096 spos_sender)
            = Some (True, [[7, 8, 0, 144, 4, 156, 0, 0, 16, 0, 0, 0, 0, 21]])"
    by code_simp
  then have run: "fisenddata_spos (ext0 True) 2 4096 spos_sender = Some (True, spos_after)"
    and snt: "sent spos_after = [[7, 8, 0, 144, 4, 156, 0, 0, 16, 0, 0, 0, 0, 21]]"
    by (auto simp: spos_after_def)
  have h: "(0::int) \<le> 4096" "(4096::int) < 2 ^ 31" "4096 \<noteq> iIsendpos spos_sender"
          "0 \<le> iIsendseq spos_sender" "iIsendseq spos_sender < 32"
    by (simp_all add: spos_sender_def link0_def)
  from spos_roundtrip [OF h run, where ?'r = "byte list list"]
  obtain pkt where
    c1: "sent spos_after = sent spos_sender @ [pkt]" and
    c2: "iIsendseq spos_after = INEXTSEQ (iIsendseq spos_sender)" and
    c3: "iIsendpos spos_after = 4096" and
    c4: "\<forall>k\<le>4. \<forall>xr fexit. \<forall>wr :: byte list list world.
               fiprocess_packet xr (take 6 pkt) (take k (take 4 (drop 6 pkt)))
                   (drop k (take 4 (drop 6 pkt))) fexit wr
                 = Some (True, fexit, wr\<lparr>iIrecpos := 4096\<rparr>)"
    by (elim exE conjE)
  from c1 snt have pkt: "pkt = [7, 8, 0, 144, 4, 156, 0, 0, 16, 0, 0, 0, 0, 21]"
    by (simp add: spos_sender_def link0_def)
  have r4: "fiprocess_packet (ext0 False) [7, 8, 0, 144, 4, 156] [0, 0, 16, 0] [] False link0
       = Some (True, False, link0\<lparr>iIrecpos := 4096\<rparr>)"
    using c4 [rule_format, of 4 "ext0 False" False link0] by (simp add: pkt)
  have r1: "fiprocess_packet (ext0 False) [7, 8, 0, 144, 4, 156] [0] [0, 16, 0] False link0
       = Some (True, False, link0\<lparr>iIrecpos := 4096\<rparr>)"
    using c4 [rule_format, of 1 "ext0 False" False link0] by (simp add: pkt)
  have r0: "fiprocess_packet (ext0 False) [7, 8, 0, 144, 4, 156] [] [0, 0, 16, 0] False link0
       = Some (True, False, link0\<lparr>iIrecpos := 4096\<rparr>)"
    using c4 [rule_format, of 0 "ext0 False" False link0] by (simp add: pkt)
  from c2 c3 r4 r1 r0
  have "iIsendseq spos_after = INEXTSEQ (iIsendseq spos_sender) \<and> iIsendpos spos_after = 4096
   \<and> fiprocess_packet (ext0 False) [7, 8, 0, 144, 4, 156] [0, 0, 16, 0] [] False link0
       = Some (True, False, link0\<lparr>iIrecpos := 4096\<rparr>)
   \<and> fiprocess_packet (ext0 False) [7, 8, 0, 144, 4, 156] [0] [0, 16, 0] False link0
       = Some (True, False, link0\<lparr>iIrecpos := 4096\<rparr>)
   \<and> fiprocess_packet (ext0 False) [7, 8, 0, 144, 4, 156] [] [0, 0, 16, 0] False link0
       = Some (True, False, link0\<lparr>iIrecpos := 4096\<rparr>)"
    by simp
  moreover have "INEXTSEQ (iIsendseq spos_sender) = 2"
    by (simp add: spos_sender_def link0_def INEXTSEQ_mod)
  ultimately show ?thesis using h run snt by simp
qed





text \<open>The concrete link is a state that \<open>fistart\<close> reaches: the startup against a peer
  asking for packets of 8 bytes and a window of 16 ends in it, the peer's SYNC packet being
  consumed from the ring.\<close>

lemma fistart_link0:
  "fistart (ext0 True) (boot 16 0)
     = Some (True, link0\<lparr>abPrecbuf := [7, 0, 0, 32, 3, 35, 0, 8, 16, 0, 0, 0, 29] @ replicate 51 0,
                          iPrecstart := 13, iPrecend := 13,
                          sent := [[7, 0, 0, 48, 3, 51, 4, 0, 16, 0, 0, 0, 25]]\<rparr>)"
  by code_simp

text \<open>
  C2.  The code at the failing inputs.  With the packets 1 to 5 sent and none acknowledged
  (\<open>iIsendseq = 6\<close>, \<open>iIremote_ack = 0\<close>, a window of 16), \<open>fiprocess_data\<close> accepts a
  valid ACK packet that acknowledges packet 5 and leaves \<open>iIremote_ack\<close> at 0: the test
  looks at \<open>iseq\<close>, which is -1 for an ACK.  In the same state it accepts a valid DATA
  packet, number 1, that acknowledges packet 20, which was never sent, and sets
  \<open>iIremote_ack\<close> to 20.
\<close>

theorem fiprocess_data_ack_by_seq:
  "map_option (\<lambda>(r, w, e, f, n). (r, f, iIremote_ack w, iPrecstart w, cIbad_hdr w))
       (fiprocess_data (ext0 True) (ack_receiver [7, 0, 40, 64, 0, 104]))
     = Some (True, True, 0, 6, 0)
   \<and> map_option (\<lambda>(r, w, e, f, n). (r, f, iIremote_ack w, iPrecstart w, cIbad_hdr w))
       (fiprocess_data (ext0 True) (ack_receiver [7, 8, 160, 0, 0, 168]))
     = Some (True, True, 20, 6, 0)"
  by code_simp

text \<open>
  C6.  The code at the failing input.  With \<open>iIlocal_ack = 30\<close> and \<open>iIrecseq = 1\<close>, a
  remote window of 8, and the flags of the packets 31, 0 and 1 set, \<open>fiprocess_data\<close>
  accepts packet 2 and sends the ACK for it, and the flags of 31, 0 and 1 are still set:
  the loop \<open>for (i = iIlocal_ack; i <= iIrecseq; i++)\<close> does not run when the range wraps.
\<close>

theorem fiprocess_data_unnak_wrapped:
  "map_option (\<lambda>(r, w, e, f, n). (r, iIrecseq w, iIlocal_ack w, sent w,
                   map (\<lambda>i. afInaked w ! i) [30, 31, 0, 1, 2]))
       (fiprocess_data (ext0 True) unnak_receiver)
     = Some (True, 2, 2, [[7, 0, 16, 80, 0, 64]], [False, True, True, True, False])"
  by code_simp

text \<open>
  C5.  The claim as stated fails.  With nothing to resend, two read timeouts in
  \<open>fiwait_for_packet\<close> send two NAKs for packet 1, and nothing has been received in
  between; and two copies of packet 1 with a wrong checksum make \<open>fiprocess_data\<close> send two
  NAKs for packet 1.
\<close>

theorem nak_repeated_counterexample:
  "map_option (\<lambda>(r, t, w). (r, sent w, iIrecseq w, cIreceived_packets w = cIreceived_packets nak_waiter))
       (fiwait_for_packet (ext0 True) 10 6 nak_waiter)
     = Some (False, [[7, 8, 0, 112, 0, 120], [7, 8, 0, 112, 0, 120]], 0, True)
   \<and> map_option (\<lambda>(r, w, e, f, n). (r, sent w, iIrecseq w,
                     cIreceived_packets w = cIreceived_packets cksum_receiver, cIbad_cksum w))
       (fiprocess_data (ext0 True) cksum_receiver)
     = Some (True, [[7, 8, 0, 112, 0, 120], [7, 8, 0, 112, 0, 120]], 0, True, 2)"
  by code_simp

lemma CSEQDIFF_cases:
  assumes "0 \<le> i" "i < 32" "0 \<le> j" "j < 32"
  shows "CSEQDIFF j i = (if i \<le> j then j - i else j + 32 - i)"
proof (cases "i \<le> j")
  case True
  then have "(j + 32 - i) mod 32 = (j - i + 32) mod 32" by (simp add: algebra_simps)
  also have "\<dots> = (j - i) mod 32" by simp
  also have "\<dots> = j - i" using True assms by simp
  finally show ?thesis using True by (simp add: CSEQDIFF_mod)
next
  case False
  then have "(j + 32 - i) mod 32 = j + 32 - i" using assms by simp
  then show ?thesis using False by (simp add: CSEQDIFF_mod)
qed

lemma INEXTSEQ_cases:
  assumes "0 \<le> i" "i < 32"
  shows "INEXTSEQ i = (if i = 31 then 0 else i + 1)"
  using assms by (simp add: INEXTSEQ_mod)

lemma CSEQDIFF_zero:
  "0 \<le> i \<Longrightarrow> i < 32 \<Longrightarrow> 0 \<le> iseq \<Longrightarrow> iseq < 32 \<Longrightarrow> CSEQDIFF iseq i = 0 \<longleftrightarrow> i = iseq"
  by (auto simp: CSEQDIFF_cases)

lemma CSEQDIFF_nonneg: "0 \<le> CSEQDIFF a b"
  by (simp add: CSEQDIFF_mod)

lemma CSEQDIFF_next:
  assumes "0 \<le> i" "i < 32" "0 \<le> iseq" "iseq < 32" "i \<noteq> iseq"
  shows "CSEQDIFF iseq (INEXTSEQ i) = CSEQDIFF iseq i - 1"
proof (cases "i = 31")
  case True
  then have "INEXTSEQ i = 0" by (simp add: INEXTSEQ_mod)
  moreover have "CSEQDIFF iseq 0 = iseq" using assms by (simp add: CSEQDIFF_cases)
  moreover have "CSEQDIFF iseq i = iseq + 1" using assms True by (simp add: CSEQDIFF_cases)
  ultimately show ?thesis by simp
next
  case False
  with assms have r: "0 \<le> i + 1" "i + 1 < 32" by simp_all
  from False assms have n: "INEXTSEQ i = i + 1" by (simp add: INEXTSEQ_cases)
  show ?thesis
    unfolding n using assms by (simp add: CSEQDIFF_cases [OF r assms(3,4)] CSEQDIFF_cases [OF assms(1-4)])
qed

lemma INEXTSEQ_shift: "(INEXTSEQ i + int k) mod 32 = (i + int (Suc k)) mod 32"
  by (simp add: INEXTSEQ_mod mod_simps algebra_simps)

lemma finak_frame:
  assumes "finak x iseq w = Some (r, w')"
  shows "0 \<le> iseq \<and> nat iseq < length (afInaked w)
         \<and> (\<exists>s b e. w' = w\<lparr>iIlocal_ack := iIrecseq w, afInaked := (afInaked w)[nat iseq := True],
                             sent := sent w @ [finak_packet x iseq w],
                             script := s, abPrecbuf := b, iPrecend := e\<rparr>)"
proof -
  from assms obtain naked where
    n: "aset (afInaked w) iseq True = Some naked" and
    sd: "fsend_data x (finak_packet x iseq w) True
           (w\<lparr>iIlocal_ack := iIrecseq w, afInaked := naked\<rparr>) = Some (r, w')"
    by (auto simp: finak_def Let_def bind_eq_Some_conv)
  from n have rng: "0 \<le> iseq" "nat iseq < length (afInaked w)"
    and nk: "naked = (afInaked w)[nat iseq := True]"
    by (auto simp: aset_Some)
  from fsend_data_frame [OF sd] obtain s b e where
    "w' = (w\<lparr>iIlocal_ack := iIrecseq w, afInaked := naked\<rparr>)
            \<lparr>sent := sent w @ [finak_packet x iseq w], script := s, abPrecbuf := b, iPrecend := e\<rparr>"
    by auto
  with nk have "w' = w\<lparr>iIlocal_ack := iIrecseq w, afInaked := (afInaked w)[nat iseq := True],
                             sent := sent w @ [finak_packet x iseq w],
                             script := s, abPrecbuf := b, iPrecend := e\<rparr>"
    by simp
  with rng show ?thesis by blast
qed

lemma naks_run_refl: "naks_run x w w"
  unfolding naks_run_def by (rule exI [where x = "[]"]) simp

lemma naks_run_step:
  assumes f: "finak x i w = Some (r, w1)" and n: "aget (afInaked w) i = Some False"
      and rest: "naks_run x w1 w'"
  shows "naks_run x w w'"
proof -
  from finak_frame [OF f] obtain s b e where
    rng: "0 \<le> i" "nat i < length (afInaked w)" and
    w1: "w1 = w\<lparr>iIlocal_ack := iIrecseq w, afInaked := (afInaked w)[nat i := True],
                 sent := sent w @ [finak_packet x i w],
                 script := s, abPrecbuf := b, iPrecend := e\<rparr>"
    by blast
  from rest obtain js where
    a: "sent w' = sent w1 @ map (\<lambda>j. finak_packet x j w1) js" and
    b: "distinct js" and
    c: "\<forall>j\<in>set js. aget (afInaked w1) j = Some False \<and> aget (afInaked w') j = Some True" and
    d: "\<forall>j. aget (afInaked w1) j = Some True \<longrightarrow> aget (afInaked w') j = Some True" and
    e: "length (afInaked w') = length (afInaked w1)" and
    g: "iIrecseq w' = iIrecseq w1"
    unfolding naks_run_def by blast
  have i1: "aget (afInaked w1) i = Some True" using rng by (simp add: w1 aget_def)
  have inot: "i \<notin> set js" using c i1 by auto
  have old: "\<And>j. j \<noteq> i \<Longrightarrow> aget (afInaked w1) j = aget (afInaked w) j"
    using rng by (auto simp: w1 aget_def)
  have keep: "\<And>j. aget (afInaked w) j = Some True \<Longrightarrow> aget (afInaked w1) j = Some True"
    using rng by (auto simp: w1 aget_def nth_list_update split: if_splits)
  show ?thesis
    unfolding naks_run_def
  proof (rule exI [where x = "i # js"], intro conjI)
    show "sent w' = sent w @ map (\<lambda>j. finak_packet x j w) (i # js)"
      using a by (simp add: w1 finak_packet_def)
    show "distinct (i # js)" using b inot by simp
    show "\<forall>j\<in>set (i # js). aget (afInaked w) j = Some False \<and> aget (afInaked w') j = Some True"
    proof
      fix j assume j: "j \<in> set (i # js)"
      show "aget (afInaked w) j = Some False \<and> aget (afInaked w') j = Some True"
      proof (cases "j = i")
        case True
        with n d i1 show ?thesis by simp
      next
        case False
        with j have "j \<in> set js" by simp
        with c old [OF False] show ?thesis by simp
      qed
    qed
    show "\<forall>j. aget (afInaked w) j = Some True \<longrightarrow> aget (afInaked w') j = Some True"
      using d keep by blast
    show "length (afInaked w') = length (afInaked w)" using e by (simp add: w1)
    show "iIrecseq w' = iIrecseq w" using g by (simp add: w1)
  qed
qed

lemma fiprocess_naks_run:
  assumes run: "fiprocess_naks x i iseq w = Some res"
  shows "naks_run x w (snd res)"
proof (rule fiprocess_naks.raw_induct
         [where P = "\<lambda>x i iseq w res. naks_run x w (snd res)" and xa = "(((x, i), iseq), w)",
          unfolded prod.case, OF _ run])
  fix naks :: "'a extern \<Rightarrow> int \<Rightarrow> int \<Rightarrow> 'a world \<Rightarrow> (bool \<times> 'a world) option"
    and x :: "'a extern" and i iseq :: int and w :: "'a world" and res
  assume IH: "\<And>x i iseq w res. naks x i iseq w = Some res \<Longrightarrow> naks_run x w (snd res)"
  assume body: "(if i \<noteq> iseq then
        do { naked \<leftarrow> aget (afInaked w) i;
             if \<not> naked then
               do { (ok, w1) \<leftarrow> finak x i w;
                    if \<not> ok then Some (False, w1)
                    else naks x (INEXTSEQ i) iseq w1 }
             else naks x (INEXTSEQ i) iseq w }
      else Some (True, w)) = Some res"
  show "naks_run x w (snd res)"
  proof (cases "i \<noteq> iseq")
    case False
    with body show ?thesis by (auto simp: naks_run_refl)
  next
    case True
    with body obtain naked where n: "aget (afInaked w) i = Some naked" and
      r: "(if \<not> naked then
               do { (ok, w1) \<leftarrow> finak x i w;
                    if \<not> ok then Some (False, w1)
                    else naks x (INEXTSEQ i) iseq w1 }
          else naks x (INEXTSEQ i) iseq w) = Some res"
      by (auto simp: bind_eq_Some_conv)
    show ?thesis
    proof (cases naked)
      case True
      with r have "naks x (INEXTSEQ i) iseq w = Some res" by simp
      then show ?thesis by (rule IH)
    next
      case False
      with r obtain ok w1 where f: "finak x i w = Some (ok, w1)" and
        r2: "(if \<not> ok then Some (False, w1) else naks x (INEXTSEQ i) iseq w1) = Some res"
        by (auto simp: bind_eq_Some_conv)
      have "naks_run x w1 (snd res)"
      proof (cases ok)
        case True
        with r2 have "naks x (INEXTSEQ i) iseq w1 = Some res" by simp
        then show ?thesis by (rule IH)
      next
        case False
        with r2 show ?thesis by (auto simp: naks_run_refl)
      qed
      with f n False show ?thesis by (auto intro: naks_run_step)
    qed
  qed
qed

text \<open>A second run over packets that all have been NAKed sends nothing.\<close>

lemma fiprocess_naks_silent:
  assumes "0 \<le> i" "i < 32" "0 \<le> iseq" "iseq < 32"
      and "\<forall>k < nat (CSEQDIFF iseq i). aget (afInaked w) ((i + int k) mod 32) = Some True"
  shows "fiprocess_naks x i iseq w = Some (True, w)"
  using assms
proof (induction "nat (CSEQDIFF iseq i)" arbitrary: i)
  case 0
  then have "CSEQDIFF iseq i = 0" using CSEQDIFF_nonneg [of iseq i] by simp
  with 0 have "i = iseq" by (simp add: CSEQDIFF_zero)
  then show ?case by (simp add: fiprocess_naks.simps)
next
  case (Suc n)
  from Suc.hyps(2) Suc.prems(1-4) have ne: "i \<noteq> iseq" by (auto simp: CSEQDIFF_mod)
  have nx: "0 \<le> INEXTSEQ i" "INEXTSEQ i < 32" using INEXTSEQ_range by auto
  from Suc.hyps(2) CSEQDIFF_next [OF Suc.prems(1-4) ne] have d: "n = nat (CSEQDIFF iseq (INEXTSEQ i))"
    by simp
  from Suc.prems(5) Suc.hyps(2) have here: "aget (afInaked w) i = Some True"
    using Suc.prems(1,2) by (auto dest: spec [where x = 0])
  have rest: "\<forall>k < nat (CSEQDIFF iseq (INEXTSEQ i)).
                aget (afInaked w) ((INEXTSEQ i + int k) mod 32) = Some True"
  proof (intro allI impI)
    fix k assume "k < nat (CSEQDIFF iseq (INEXTSEQ i))"
    with d Suc.hyps(2) have "Suc k < nat (CSEQDIFF iseq i)" by simp
    with Suc.prems(5) have "aget (afInaked w) ((i + int (Suc k)) mod 32) = Some True" by blast
    moreover have "(INEXTSEQ i + int k) mod 32 = (i + int (Suc k)) mod 32"
      by (rule INEXTSEQ_shift)
    ultimately show "aget (afInaked w) ((INEXTSEQ i + int k) mod 32) = Some True" by simp
  qed
  from Suc.hyps(1) [OF d nx Suc.prems(3,4) rest]
  have "fiprocess_naks x (INEXTSEQ i) iseq w = Some (True, w)" .
  with ne here show ?case by (subst fiprocess_naks.simps) simp
qed

lemma fiprocess_naks_flagged:
  assumes "0 \<le> i" "i < 32" "0 \<le> iseq" "iseq < 32"
      and "fiprocess_naks x i iseq w = Some (True, w')"
  shows "\<forall>k < nat (CSEQDIFF iseq i). aget (afInaked w') ((i + int k) mod 32) = Some True"
  using assms
proof (induction "nat (CSEQDIFF iseq i)" arbitrary: i w)
  case 0
  then show ?case by simp
next
  case (Suc n)
  from Suc.hyps(2) Suc.prems(1-4) have ne: "i \<noteq> iseq" by (auto simp: CSEQDIFF_mod)
  have nx: "0 \<le> INEXTSEQ i" "INEXTSEQ i < 32" using INEXTSEQ_range by auto
  from Suc.hyps(2) CSEQDIFF_next [OF Suc.prems(1-4) ne] have d: "n = nat (CSEQDIFF iseq (INEXTSEQ i))"
    by simp
  from Suc.prems(5) ne obtain naked where n: "aget (afInaked w) i = Some naked" and
    r: "(if \<not> naked then
             do { (ok, w1) \<leftarrow> finak x i w;
                  if \<not> ok then Some (False, w1)
                  else fiprocess_naks x (INEXTSEQ i) iseq w1 }
        else fiprocess_naks x (INEXTSEQ i) iseq w) = Some (True, w')"
    by (subst (asm) fiprocess_naks.simps) (auto simp: bind_eq_Some_conv)
  have "\<exists>w1. fiprocess_naks x (INEXTSEQ i) iseq w1 = Some (True, w')
             \<and> aget (afInaked w1) i = Some True"
  proof (cases naked)
    case True
    with r n show ?thesis by auto
  next
    case False
    with r obtain ok w1 where f: "finak x i w = Some (ok, w1)" and
      r2: "(if \<not> ok then Some (False, w1) else fiprocess_naks x (INEXTSEQ i) iseq w1) = Some (True, w')"
      by (auto simp: bind_eq_Some_conv)
    from r2 have ok: ok and r3: "fiprocess_naks x (INEXTSEQ i) iseq w1 = Some (True, w')"
      by (auto split: if_splits)
    from finak_frame [OF f] have "aget (afInaked w1) i = Some True"
      by (auto simp: aget_def)
    with r3 show ?thesis by blast
  qed
  then obtain w1 where r3: "fiprocess_naks x (INEXTSEQ i) iseq w1 = Some (True, w')"
    and fl: "aget (afInaked w1) i = Some True" by blast
  from fiprocess_naks_run [OF r3] fl have here: "aget (afInaked w') i = Some True"
    by (auto simp: naks_run_def)
  from Suc.hyps(1) [OF d nx Suc.prems(3,4) r3]
  have rest: "\<forall>k<nat (CSEQDIFF iseq (INEXTSEQ i)).
                aget (afInaked w') ((INEXTSEQ i + int k) mod 32) = Some True" .
  show ?case
  proof (intro allI impI)
    fix k assume k: "k < nat (CSEQDIFF iseq i)"
    show "aget (afInaked w') ((i + int k) mod 32) = Some True"
    proof (cases k)
      case 0
      with here Suc.prems(1,2) show ?thesis by simp
    next
      case (Suc k')
      with k d Suc.hyps(2) have "k' < nat (CSEQDIFF iseq (INEXTSEQ i))" by simp
      with rest have "aget (afInaked w') ((INEXTSEQ i + int k') mod 32) = Some True" by blast
      then show ?thesis by (simp add: INEXTSEQ_shift Suc)
    qed
  qed
qed

text \<open>
  C5, amended.  The loop of the out-of-order save path of \<open>fiprocess_data\<close> hands to the
  port a NAK only for sequence numbers whose flag \<open>afInaked\<close> is clear, for each of them
  once, and sets their flags; it clears no flag.  When it has succeeded, a second run over
  the same range, from the state it has left, sends nothing and changes nothing.
\<close>

theorem fiprocess_naks_once:
  assumes run: "fiprocess_naks x i iseq w = Some (r, w')"
  shows "naks_run x w w'
         \<and> (r \<and> 0 \<le> i \<and> i < 32 \<and> 0 \<le> iseq \<and> iseq < 32
              \<longrightarrow> fiprocess_naks x i iseq w' = Some (True, w'))"
proof
  from fiprocess_naks_run [OF run] show "naks_run x w w'" by simp
  show "r \<and> 0 \<le> i \<and> i < 32 \<and> 0 \<le> iseq \<and> iseq < 32
              \<longrightarrow> fiprocess_naks x i iseq w' = Some (True, w')"
  proof
    assume a: "r \<and> 0 \<le> i \<and> i < 32 \<and> 0 \<le> iseq \<and> iseq < 32"
    with run have run': "fiprocess_naks x i iseq w = Some (True, w')" by simp
    from a have rng: "0 \<le> i" "i < 32" "0 \<le> iseq" "iseq < 32" by simp_all
    from fiprocess_naks_silent [OF rng fiprocess_naks_flagged [OF rng run']]
    show "fiprocess_naks x i iseq w' = Some (True, w')" .
  qed
qed

theorem fiprocess_naks_once_witness:
  "map_option (\<lambda>(r, w). (r, sent w, map (\<lambda>j. afInaked w ! j) [1, 2, 3]))
       (fiprocess_naks (ext0 True) 1 4 nak_looper)
     = Some (True, [[7, 8, 0, 112, 0, 120], [7, 24, 0, 112, 0, 104]], [True, True, True])
   \<and> (\<exists>w'. fiprocess_naks (ext0 True) 1 4 nak_looper = Some (True, w')
          \<and> fiprocess_naks (ext0 True) 1 4 w' = Some (True, w'))"
proof -
  have ev: "map_option (\<lambda>(r, w). (r, sent w, map (\<lambda>j. afInaked w ! j) [1, 2, 3]))
       (fiprocess_naks (ext0 True) 1 4 nak_looper)
     = Some (True, [[7, 8, 0, 112, 0, 120], [7, 24, 0, 112, 0, 104]], [True, True, True])"
    by code_simp
  then obtain w' where run: "fiprocess_naks (ext0 True) 1 4 nak_looper = Some (True, w')"
    by auto
  from fiprocess_naks_once [OF run] ev run show ?thesis by simp
qed

subsection \<open>What the receiving side leaves alone\<close>

text \<open>
  While packets are received and processed, also while \<open>fisenddata\<close> waits for the window,
  \<open>iIsendseq\<close> and the send buffers keep their contents, but for the acknowledgement and
  the check in the headers that a resend brings up to date, provided the upcall keeps them.
\<close>

lemma send_inv_upd [simp]:
  "send_inv s m (w\<lparr>iIrequest_packsize := v\<rparr>) = send_inv s m w"
  "send_inv s m (w\<lparr>iIrequest_winsize := v\<rparr>) = send_inv s m w"
  "send_inv s m (w\<lparr>iIremote_packsize := v\<rparr>) = send_inv s m w"
  "send_inv s m (w\<lparr>iIforced_remote_packsize := v\<rparr>) = send_inv s m w"
  "send_inv s m (w\<lparr>iIremote_winsize := v\<rparr>) = send_inv s m w"
  "send_inv s m (w\<lparr>iIforced_remote_winsize := v\<rparr>) = send_inv s m w"
  "send_inv s m (w\<lparr>cIsync_timeout := v\<rparr>) = send_inv s m w"
  "send_inv s m (w\<lparr>cIsync_retries := v\<rparr>) = send_inv s m w"
  "send_inv s m (w\<lparr>cItimeout := v\<rparr>) = send_inv s m w"
  "send_inv s m (w\<lparr>cIretries := v\<rparr>) = send_inv s m w"
  "send_inv s m (w\<lparr>cIerrors := v\<rparr>) = send_inv s m w"
  "send_inv s m (w\<lparr>cIerror_decay := v\<rparr>) = send_inv s m w"
  "send_inv s m (w\<lparr>iIrecseq := v\<rparr>) = send_inv s m w"
  "send_inv s m (w\<lparr>iIlocal_ack := v\<rparr>) = send_inv s m w"
  "send_inv s m (w\<lparr>iIremote_ack := v\<rparr>) = send_inv s m w"
  "send_inv s m (w\<lparr>iIsendpos := v\<rparr>) = send_inv s m w"
  "send_inv s m (w\<lparr>iIrecpos := v\<rparr>) = send_inv s m w"
  "send_inv s m (w\<lparr>fIclosing := fc\<rparr>) = send_inv s m w"
  "send_inv s m (w\<lparr>azIsendbuffers := sb\<rparr>) = send_inv s m w"
  "send_inv s m (w\<lparr>azIrecbuffers := rb\<rparr>) = send_inv s m w"
  "send_inv s m (w\<lparr>afInaked := nk\<rparr>) = send_inv s m w"
  "send_inv s m (w\<lparr>cIsyncs := v\<rparr>) = send_inv s m w"
  "send_inv s m (w\<lparr>cIsent_packets := v\<rparr>) = send_inv s m w"
  "send_inv s m (w\<lparr>cIreceived_packets := v\<rparr>) = send_inv s m w"
  "send_inv s m (w\<lparr>cIresent_packets := v\<rparr>) = send_inv s m w"
  "send_inv s m (w\<lparr>cIbad_hdr := v\<rparr>) = send_inv s m w"
  "send_inv s m (w\<lparr>cIbad_order := v\<rparr>) = send_inv s m w"
  "send_inv s m (w\<lparr>cIbad_cksum := v\<rparr>) = send_inv s m w"
  "send_inv s m (w\<lparr>cIremote_rejects := v\<rparr>) = send_inv s m w"
  "send_inv s m (w\<lparr>abPrecbuf := pb\<rparr>) = send_inv s m w"
  "send_inv s m (w\<lparr>iPrecstart := v\<rparr>) = send_inv s m w"
  "send_inv s m (w\<lparr>iPrecend := v\<rparr>) = send_inv s m w"
  "send_inv s m (w\<lparr>sent := st\<rparr>) = send_inv s m w"
  "send_inv s m (w\<lparr>script := sc\<rparr>) = send_inv s m w"
  "send_inv s m (w\<lparr>ulog := ul\<rparr>) = send_inv s m w"
  "send_inv s m (w\<lparr>sess := ss\<rparr>) = send_inv s m w"
  by (simp_all add: send_inv_def)

lemma kept_refl [simp]: "kept w w"
  by (simp add: kept_def)


lemma kept_upd_left [simp]:
  "kept (w\<lparr>iIrequest_packsize := v\<rparr>) w' = kept w w'"
  "kept (w\<lparr>iIrequest_winsize := v\<rparr>) w' = kept w w'"
  "kept (w\<lparr>iIremote_packsize := v\<rparr>) w' = kept w w'"
  "kept (w\<lparr>iIforced_remote_packsize := v\<rparr>) w' = kept w w'"
  "kept (w\<lparr>iIremote_winsize := v\<rparr>) w' = kept w w'"
  "kept (w\<lparr>iIforced_remote_winsize := v\<rparr>) w' = kept w w'"
  "kept (w\<lparr>cIsync_timeout := v\<rparr>) w' = kept w w'"
  "kept (w\<lparr>cIsync_retries := v\<rparr>) w' = kept w w'"
  "kept (w\<lparr>cItimeout := v\<rparr>) w' = kept w w'"
  "kept (w\<lparr>cIretries := v\<rparr>) w' = kept w w'"
  "kept (w\<lparr>cIerrors := v\<rparr>) w' = kept w w'"
  "kept (w\<lparr>cIerror_decay := v\<rparr>) w' = kept w w'"
  "kept (w\<lparr>iIrecseq := v\<rparr>) w' = kept w w'"
  "kept (w\<lparr>iIlocal_ack := v\<rparr>) w' = kept w w'"
  "kept (w\<lparr>iIremote_ack := v\<rparr>) w' = kept w w'"
  "kept (w\<lparr>iIsendpos := v\<rparr>) w' = kept w w'"
  "kept (w\<lparr>iIrecpos := v\<rparr>) w' = kept w w'"
  "kept (w\<lparr>fIclosing := fc\<rparr>) w' = kept w w'"
  "kept (w\<lparr>azIsendbuffers := sb\<rparr>) w' = kept w w'"
  "kept (w\<lparr>azIrecbuffers := rb\<rparr>) w' = kept w w'"
  "kept (w\<lparr>afInaked := nk\<rparr>) w' = kept w w'"
  "kept (w\<lparr>cIsyncs := v\<rparr>) w' = kept w w'"
  "kept (w\<lparr>cIsent_packets := v\<rparr>) w' = kept w w'"
  "kept (w\<lparr>cIreceived_packets := v\<rparr>) w' = kept w w'"
  "kept (w\<lparr>cIresent_packets := v\<rparr>) w' = kept w w'"
  "kept (w\<lparr>cIbad_hdr := v\<rparr>) w' = kept w w'"
  "kept (w\<lparr>cIbad_order := v\<rparr>) w' = kept w w'"
  "kept (w\<lparr>cIbad_cksum := v\<rparr>) w' = kept w w'"
  "kept (w\<lparr>cIremote_rejects := v\<rparr>) w' = kept w w'"
  "kept (w\<lparr>abPrecbuf := pb\<rparr>) w' = kept w w'"
  "kept (w\<lparr>iPrecstart := v\<rparr>) w' = kept w w'"
  "kept (w\<lparr>iPrecend := v\<rparr>) w' = kept w w'"
  "kept (w\<lparr>sent := st\<rparr>) w' = kept w w'"
  "kept (w\<lparr>script := sc\<rparr>) w' = kept w w'"
  "kept (w\<lparr>ulog := ul\<rparr>) w' = kept w w'"
  "kept (w\<lparr>sess := ss\<rparr>) w' = kept w w'"
  by (simp_all add: kept_def)

lemma kept_upd_right [simp]:
  "kept w (w'\<lparr>iIrequest_packsize := v\<rparr>) = kept w w'"
  "kept w (w'\<lparr>iIrequest_winsize := v\<rparr>) = kept w w'"
  "kept w (w'\<lparr>iIremote_packsize := v\<rparr>) = kept w w'"
  "kept w (w'\<lparr>iIforced_remote_packsize := v\<rparr>) = kept w w'"
  "kept w (w'\<lparr>iIremote_winsize := v\<rparr>) = kept w w'"
  "kept w (w'\<lparr>iIforced_remote_winsize := v\<rparr>) = kept w w'"
  "kept w (w'\<lparr>cIsync_timeout := v\<rparr>) = kept w w'"
  "kept w (w'\<lparr>cIsync_retries := v\<rparr>) = kept w w'"
  "kept w (w'\<lparr>cItimeout := v\<rparr>) = kept w w'"
  "kept w (w'\<lparr>cIretries := v\<rparr>) = kept w w'"
  "kept w (w'\<lparr>cIerrors := v\<rparr>) = kept w w'"
  "kept w (w'\<lparr>cIerror_decay := v\<rparr>) = kept w w'"
  "kept w (w'\<lparr>iIrecseq := v\<rparr>) = kept w w'"
  "kept w (w'\<lparr>iIlocal_ack := v\<rparr>) = kept w w'"
  "kept w (w'\<lparr>iIremote_ack := v\<rparr>) = kept w w'"
  "kept w (w'\<lparr>iIsendpos := v\<rparr>) = kept w w'"
  "kept w (w'\<lparr>iIrecpos := v\<rparr>) = kept w w'"
  "kept w (w'\<lparr>fIclosing := fc\<rparr>) = kept w w'"
  "kept w (w'\<lparr>azIsendbuffers := sb\<rparr>) = kept w w'"
  "kept w (w'\<lparr>azIrecbuffers := rb\<rparr>) = kept w w'"
  "kept w (w'\<lparr>afInaked := nk\<rparr>) = kept w w'"
  "kept w (w'\<lparr>cIsyncs := v\<rparr>) = kept w w'"
  "kept w (w'\<lparr>cIsent_packets := v\<rparr>) = kept w w'"
  "kept w (w'\<lparr>cIreceived_packets := v\<rparr>) = kept w w'"
  "kept w (w'\<lparr>cIresent_packets := v\<rparr>) = kept w w'"
  "kept w (w'\<lparr>cIbad_hdr := v\<rparr>) = kept w w'"
  "kept w (w'\<lparr>cIbad_order := v\<rparr>) = kept w w'"
  "kept w (w'\<lparr>cIbad_cksum := v\<rparr>) = kept w w'"
  "kept w (w'\<lparr>cIremote_rejects := v\<rparr>) = kept w w'"
  "kept w (w'\<lparr>abPrecbuf := pb\<rparr>) = kept w w'"
  "kept w (w'\<lparr>iPrecstart := v\<rparr>) = kept w w'"
  "kept w (w'\<lparr>iPrecend := v\<rparr>) = kept w w'"
  "kept w (w'\<lparr>sent := st\<rparr>) = kept w w'"
  "kept w (w'\<lparr>script := sc\<rparr>) = kept w w'"
  "kept w (w'\<lparr>ulog := ul\<rparr>) = kept w w'"
  "kept w (w'\<lparr>sess := ss\<rparr>) = kept w w'"
  by (simp_all add: kept_def)















lemma fiprocess_ack_kept [simp]: "kept (fiprocess_ack iseq iack w) w' = kept w w'"
  by (simp add: fiprocess_ack_def)

lemma fiprocess_ack_kept_right [simp]: "kept w (fiprocess_ack iseq iack w') = kept w w'"
  by (simp add: fiprocess_ack_def)










subsection \<open>The packets that are handed to the port\<close>


lemma poke_nth_other:
  "poke buf p bs = Some buf' \<Longrightarrow> k < nat p \<or> nat p + length bs \<le> k \<Longrightarrow> k < length buf
     \<Longrightarrow> buf' ! k = buf ! k"
  by (auto simp: poke_def nth_append split: if_splits)

lemma poke_nth_single: "poke buf p [b] = Some buf' \<Longrightarrow> buf' ! nat p = b"
  by (auto simp: poke_def nth_append split: if_splits)
























end
